theory Spec2Isabelle
  imports Main "HOL-Library.AList"
begin

section \<open>JavaScript values, requests and responses\<close>

text \<open>
  The values that travel through \<^verbatim>\<open>src/server.js\<close>: what a collaborator's promise
  resolves with, what \<^verbatim>\<open>express.json()\<close> leaves in \<^verbatim>\<open>req.body\<close>, and what
  \<^verbatim>\<open>res.json\<close> serialises. \<open>JUndefined\<close> is JavaScript's \<^verbatim>\<open>undefined\<close>; an object keeps
  its keys in order, as an association list.
\<close>

datatype json =
    JUndefined
  | JNull
  | JBool bool
  | JNum int
  | JStr string
  | JArr "json list"
  | JObj "(string \<times> json) list"

text \<open>A thrown or rejected JavaScript error: its name and its message.\<close>

datatype js_error = JsError string string

text \<open>JavaScript truthiness, as \<^verbatim>\<open>if (user)\<close> and \<^verbatim>\<open>!user\<close> test it.\<close>

fun truthy :: "json \<Rightarrow> bool" where
  "truthy JUndefined = False"
| "truthy JNull = False"
| "truthy (JBool b) = b"
| "truthy (JNum n) = (n \<noteq> 0)"
| "truthy (JStr s) = (s \<noteq> [])"
| "truthy (JArr xs) = True"
| "truthy (JObj kvs) = True"

text \<open>
  Property access \<^verbatim>\<open>v.k\<close> for the property names the handlers read
  (\<^verbatim>\<open>deletedCount\<close>, \<^verbatim>\<open>Buckets\<close>, \<^verbatim>\<open>Contents\<close>): reading a property of
  \<^verbatim>\<open>null\<close> or \<^verbatim>\<open>undefined\<close> throws a TypeError, an object yields the value stored
  under the key or \<^verbatim>\<open>undefined\<close>, and no other value has one of these properties.
\<close>

fun get_prop :: "json \<Rightarrow> string \<Rightarrow> js_error + json" where
  "get_prop JUndefined k = Inl (JsError ''TypeError'' (''Cannot read properties of undefined (reading '' @ k @ '')''))"
| "get_prop JNull k = Inl (JsError ''TypeError'' (''Cannot read properties of null (reading '' @ k @ '')''))"
| "get_prop (JObj kvs) k = (case map_of kvs k of None \<Rightarrow> Inr JUndefined | Some v \<Rightarrow> Inr v)"
| "get_prop v k = Inr JUndefined"

text \<open>
  The file that \<^verbatim>\<open>upload.single('file')\<close> (multer, memory storage) leaves in
  \<^verbatim>\<open>req.file\<close>: the fields the upload handler reads.
\<close>

record uploaded_file =
  originalname :: string
  buffer :: string
  mimetype :: string

text \<open>
  \<^verbatim>\<open>req.params\<close>: Express binds the names of the matched path pattern to strings; a
  handler reads only the names of its own pattern.
\<close>

record params =
  id_param :: string
  bucketName :: string
  fileName :: string

record request =
  http_method :: string
  path :: string
  params :: params
  body :: json
  file_opt :: "uploaded_file option"

text \<open>
  A response body: \<^verbatim>\<open>res.json(v)\<close> sends the serialisation of \<open>v\<close> as
  \<^verbatim>\<open>application/json\<close>; \<^verbatim>\<open>res.send(s)\<close> with a string sends the text itself as
  \<^verbatim>\<open>text/html\<close>.
\<close>

datatype body = JsonBody json | TextBody string

section \<open>Collaborator calls and the trace of a handler\<close>

text \<open>The parameter object \<^verbatim>\<open>params\<close> handed to \<^verbatim>\<open>s3.upload\<close>.\<close>

record upload_params =
  Bucket :: string
  Key :: string
  Body :: string
  ContentType :: string

text \<open>
  The calls the handlers make on their two collaborators, with the arguments as the
  source passes them. \<open>User_create b\<close> stands for \<^verbatim>\<open>new User(b)\<close> followed by
  \<^verbatim>\<open>user.save()\<close>, both inside the same \<^verbatim>\<open>try\<close>; its resolved value is the document
  \<^verbatim>\<open>user\<close> as it is after the save.  \<open>User_findByIdAndUpdate i b n\<close> carries the option
  \<^verbatim>\<open>{ new: n }\<close>; \<open>User_deleteOne i\<close> is \<^verbatim>\<open>User.deleteOne({ _id: i })\<close>.
\<close>

datatype call =
    User_findOne
  | User_create json
  | User_find
  | User_findById string
  | User_findByIdAndUpdate string json bool
  | User_deleteOne string
  | S3_listBuckets
  | S3_listObjectsV2 string
  | S3_upload upload_params
  | S3_deleteObject string string

text \<open>What \<^verbatim>\<open>await\<close> yields: the promise's value, or the error it throws into \<^verbatim>\<open>catch\<close>.\<close>

datatype outcome = Resolved json | Rejected js_error

text \<open>
  A collaborator answers a call in a state of the outside world \<open>'w\<close> (the database, the
  object store) and leaves a new state. The handlers are written over any such
  collaborator.
\<close>

type_synonym 'w collaborator = "call \<Rightarrow> 'w \<Rightarrow> outcome \<times> 'w"

text \<open>
  What a handler does, in order: collaborator calls, calls of \<^verbatim>\<open>logInfo(msg, req)\<close> and
  \<^verbatim>\<open>logError(msg, req, error)\<close>, \<^verbatim>\<open>console.error\<close>, and the status and body it
  sends.
\<close>

datatype event =
    Call call
  | LogInfo string request
  | LogError string request js_error
  | ConsoleError string js_error
  | Respond nat body

text \<open>
  Modelled from the spec: \<^verbatim>\<open>logInfo\<close> of \<^verbatim>\<open>./logger\<close>, which is not among the sources.
  By section 4.4 of the specification, \<^verbatim>\<open>info(message, requestContext?)\<close> appends one
  log event and never throws: a call is one event of the trace and control continues.
\<close>

definition logInfo :: "string \<Rightarrow> request \<Rightarrow> event" where
  "logInfo msg req = LogInfo msg req"

text \<open>
  Modelled from the spec: \<^verbatim>\<open>logError\<close> of \<^verbatim>\<open>./logger\<close>, which is not among the sources.
  By section 4.4 of the specification, \<^verbatim>\<open>error(message, requestContext?, errorDetail?)\<close>
  appends one log event and never throws.
\<close>

definition logError :: "string \<Rightarrow> request \<Rightarrow> js_error \<Rightarrow> event" where
  "logError msg req err = LogError msg req err"

text \<open>\<^verbatim>\<open>res.status(st).json(v)\<close> and \<^verbatim>\<open>res.status(st).send(s)\<close>; \<^verbatim>\<open>res.json(v)\<close> is status 200.\<close>

definition res_status_json :: "nat \<Rightarrow> json \<Rightarrow> event" where
  "res_status_json st v = Respond st (JsonBody v)"

definition res_json :: "json \<Rightarrow> event" where
  "res_json v = res_status_json 200 v"

definition res_status_send :: "nat \<Rightarrow> string \<Rightarrow> event" where
  "res_status_send st s = Respond st (TextBody s)"

text \<open>The object literals \<^verbatim>\<open>{ error: s }\<close> and \<^verbatim>\<open>{ message: s }\<close>.\<close>

definition error_obj :: "string \<Rightarrow> json" where
  "error_obj s = JObj [(''error'', JStr s)]"

definition message_obj :: "string \<Rightarrow> json" where
  "message_obj s = JObj [(''message'', JStr s)]"

text \<open>The accented letters of the messages, as their UTF-8 bytes.\<close>

abbreviation a_acute :: string where "a_acute \<equiv> [CHR 0xC3, CHR 0xA1]"
abbreviation a_tilde :: string where "a_tilde \<equiv> [CHR 0xC3, CHR 0xA3]"
abbreviation i_acute :: string where "i_acute \<equiv> [CHR 0xC3, CHR 0xAD]"

section \<open>The route handlers\<close>

text \<open>\<^verbatim>\<open>app.get('/mongodb/testar-conexao', ...)\<close>\<close>

definition get_mongodb_testar_conexao :: "'w collaborator \<Rightarrow> request \<Rightarrow> 'w \<Rightarrow> event list \<times> 'w" where
  "get_mongodb_testar_conexao coll req w =
     (case coll User_findOne w of
        (Resolved user, w') \<Rightarrow>
          ([Call User_findOne,
            logInfo (''Teste conex'' @ a_tilde @ ''o MongoDB OK'') req,
            if truthy user
            then res_status_send 200
                   (''Conex'' @ a_tilde @ ''o com MongoDB OK - Usu'' @ a_acute @ ''rio encontrado.'')
            else res_status_send 200
                   (''Conex'' @ a_tilde @ ''o com MongoDB OK - Nenhum usu'' @ a_acute @ ''rio encontrado.'')],
           w')
      | (Rejected error, w') \<Rightarrow>
          ([Call User_findOne,
            ConsoleError ''Erro detalhado:'' error,
            logError ''Erro no teste MongoDB'' req error,
            res_status_send 500 (''Erro na conex'' @ a_tilde @ ''o com o MongoDB.'')],
           w'))"

text \<open>\<^verbatim>\<open>app.post('/usuarios', ...)\<close>\<close>

definition post_usuarios :: "'w collaborator \<Rightarrow> request \<Rightarrow> 'w \<Rightarrow> event list \<times> 'w" where
  "post_usuarios coll req w =
     (case coll (User_create (body req)) w of
        (Resolved user, w') \<Rightarrow>
          ([Call (User_create (body req)),
            logInfo (''Usu'' @ a_acute @ ''rio criado'') req,
            res_status_json 201 user],
           w')
      | (Rejected error, w') \<Rightarrow>
          ([Call (User_create (body req)),
            logError (''Erro ao criar usu'' @ a_acute @ ''rio'') req error,
            res_status_json 500 (error_obj (''Erro ao criar usu'' @ a_acute @ ''rio.''))],
           w'))"

text \<open>\<^verbatim>\<open>app.get('/usuarios', ...)\<close>\<close>

definition get_usuarios :: "'w collaborator \<Rightarrow> request \<Rightarrow> 'w \<Rightarrow> event list \<times> 'w" where
  "get_usuarios coll req w =
     (case coll User_find w of
        (Resolved users, w') \<Rightarrow>
          ([Call User_find, res_json users], w')
      | (Rejected error, w') \<Rightarrow>
          ([Call User_find,
            logError (''Erro ao listar usu'' @ a_acute @ ''rios'') req error,
            res_status_json 500 (error_obj (''Erro ao listar usu'' @ a_acute @ ''rios.''))],
           w'))"

text \<open>\<^verbatim>\<open>app.get('/usuarios/:id', ...)\<close>\<close>

definition get_usuarios_id :: "'w collaborator \<Rightarrow> request \<Rightarrow> 'w \<Rightarrow> event list \<times> 'w" where
  "get_usuarios_id coll req w =
     (case coll (User_findById (id_param (params req))) w of
        (Resolved user, w') \<Rightarrow>
          ([Call (User_findById (id_param (params req))),
            if \<not> truthy user
            then res_status_json 404 (error_obj (''Usu'' @ a_acute @ ''rio n'' @ a_tilde @ ''o encontrado.''))
            else res_json user],
           w')
      | (Rejected error, w') \<Rightarrow>
          ([Call (User_findById (id_param (params req))),
            logError (''Erro ao buscar usu'' @ a_acute @ ''rio'') req error,
            res_status_json 500 (error_obj (''Erro ao buscar usu'' @ a_acute @ ''rio.''))],
           w'))"

text \<open>\<^verbatim>\<open>app.put('/usuarios/:id', ...)\<close>\<close>

definition put_usuarios_id :: "'w collaborator \<Rightarrow> request \<Rightarrow> 'w \<Rightarrow> event list \<times> 'w" where
  "put_usuarios_id coll req w =
     (case coll (User_findByIdAndUpdate (id_param (params req)) (body req) True) w of
        (Resolved user, w') \<Rightarrow>
          ([Call (User_findByIdAndUpdate (id_param (params req)) (body req) True),
            if \<not> truthy user
            then res_status_json 404 (error_obj (''Usu'' @ a_acute @ ''rio n'' @ a_tilde @ ''o encontrado.''))
            else res_json user],
           w')
      | (Rejected error, w') \<Rightarrow>
          ([Call (User_findByIdAndUpdate (id_param (params req)) (body req) True),
            logError (''Erro ao atualizar usu'' @ a_acute @ ''rio'') req error,
            res_status_json 500 (error_obj (''Erro ao atualizar usu'' @ a_acute @ ''rio.''))],
           w'))"

text \<open>
  \<^verbatim>\<open>app.delete('/usuarios/:id', ...)\<close>. Reading \<^verbatim>\<open>result.deletedCount\<close> happens inside
  the \<^verbatim>\<open>try\<close>, so a TypeError it throws is caught like a rejection.
\<close>

definition delete_usuarios_id :: "'w collaborator \<Rightarrow> request \<Rightarrow> 'w \<Rightarrow> event list \<times> 'w" where
  "delete_usuarios_id coll req w =
     (case coll (User_deleteOne (id_param (params req))) w of
        (Resolved result, w') \<Rightarrow>
          (case get_prop result ''deletedCount'' of
             Inr deletedCount \<Rightarrow>
               ([Call (User_deleteOne (id_param (params req))),
                 if deletedCount = JNum 0
                 then res_status_json 404 (error_obj (''Usu'' @ a_acute @ ''rio n'' @ a_tilde @ ''o encontrado.''))
                 else res_json (message_obj (''Usu'' @ a_acute @ ''rio removido com sucesso.''))],
                w')
           | Inl error \<Rightarrow>
               ([Call (User_deleteOne (id_param (params req))),
                 logError (''Erro ao remover usu'' @ a_acute @ ''rio'') req error,
                 res_status_json 500 (error_obj (''Erro ao remover usu'' @ a_acute @ ''rio.''))],
                w'))
      | (Rejected error, w') \<Rightarrow>
          ([Call (User_deleteOne (id_param (params req))),
            logError (''Erro ao remover usu'' @ a_acute @ ''rio'') req error,
            res_status_json 500 (error_obj (''Erro ao remover usu'' @ a_acute @ ''rio.''))],
           w'))"

text \<open>\<^verbatim>\<open>app.get('/buckets', ...)\<close>\<close>

definition get_buckets :: "'w collaborator \<Rightarrow> request \<Rightarrow> 'w \<Rightarrow> event list \<times> 'w" where
  "get_buckets coll req w =
     (case coll S3_listBuckets w of
        (Resolved data, w') \<Rightarrow>
          (case get_prop data ''Buckets'' of
             Inr buckets \<Rightarrow> ([Call S3_listBuckets, res_json buckets], w')
           | Inl error \<Rightarrow>
               ([Call S3_listBuckets,
                 logError ''Erro ao listar buckets'' req error,
                 res_status_json 500 (error_obj ''Erro ao listar buckets.'')],
                w'))
      | (Rejected error, w') \<Rightarrow>
          ([Call S3_listBuckets,
            logError ''Erro ao listar buckets'' req error,
            res_status_json 500 (error_obj ''Erro ao listar buckets.'')],
           w'))"

text \<open>\<^verbatim>\<open>app.get('/buckets/:bucketName', ...)\<close>\<close>

definition get_buckets_bucketName :: "'w collaborator \<Rightarrow> request \<Rightarrow> 'w \<Rightarrow> event list \<times> 'w" where
  "get_buckets_bucketName coll req w =
     (case coll (S3_listObjectsV2 (bucketName (params req))) w of
        (Resolved data, w') \<Rightarrow>
          (case get_prop data ''Contents'' of
             Inr contents \<Rightarrow>
               ([Call (S3_listObjectsV2 (bucketName (params req))), res_json contents], w')
           | Inl error \<Rightarrow>
               ([Call (S3_listObjectsV2 (bucketName (params req))),
                 logError ''Erro ao listar objetos'' req error,
                 res_status_json 500 (error_obj ''Erro ao listar objetos.'')],
                w'))
      | (Rejected error, w') \<Rightarrow>
          ([Call (S3_listObjectsV2 (bucketName (params req))),
            logError ''Erro ao listar objetos'' req error,
            res_status_json 500 (error_obj ''Erro ao listar objetos.'')],
           w'))"

text \<open>
  \<^verbatim>\<open>app.post('/buckets/:bucketName/upload', upload.single('file'), ...)\<close>. The test of
  \<^verbatim>\<open>req.file\<close> comes before the \<^verbatim>\<open>try\<close> and before any call.
\<close>

definition post_buckets_bucketName_upload :: "'w collaborator \<Rightarrow> request \<Rightarrow> 'w \<Rightarrow> event list \<times> 'w" where
  "post_buckets_bucketName_upload coll req w =
     (case file_opt req of
        None \<Rightarrow> ([res_status_json 400 (error_obj ''Nenhum arquivo enviado.'')], w)
      | Some f \<Rightarrow>
          (let params = \<lparr>Bucket = bucketName (params req),
                         Key = originalname f,
                         Body = buffer f,
                         ContentType = mimetype f\<rparr>
           in case coll (S3_upload params) w of
                (Resolved data, w') \<Rightarrow>
                  ([Call (S3_upload params),
                    res_json (JObj [(''message'', JStr (''Upload conclu'' @ i_acute @ ''do.'')),
                                    (''data'', data)])],
                   w')
              | (Rejected error, w') \<Rightarrow>
                  ([Call (S3_upload params),
                    logError ''Erro no upload'' req error,
                    res_status_json 500 (error_obj ''Erro ao enviar arquivo.'')],
                   w')))"

text \<open>\<^verbatim>\<open>app.delete('/buckets/:bucketName/file/:fileName', ...)\<close>\<close>

definition delete_buckets_bucketName_file_fileName :: "'w collaborator \<Rightarrow> request \<Rightarrow> 'w \<Rightarrow> event list \<times> 'w" where
  "delete_buckets_bucketName_file_fileName coll req w =
     (case coll (S3_deleteObject (bucketName (params req)) (fileName (params req))) w of
        (Resolved ack, w') \<Rightarrow>
          ([Call (S3_deleteObject (bucketName (params req)) (fileName (params req))),
            res_json (message_obj ''Arquivo removido.'')],
           w')
      | (Rejected error, w') \<Rightarrow>
          ([Call (S3_deleteObject (bucketName (params req)) (fileName (params req))),
            logError ''Erro ao remover arquivo'' req error,
            res_status_json 500 (error_obj ''Erro ao remover arquivo.'')],
           w'))"

text \<open>The ten routes the file registers, and the handler bound to each.\<close>

datatype route =
    GET_mongodb_testar_conexao
  | POST_usuarios
  | GET_usuarios
  | GET_usuarios_id
  | PUT_usuarios_id
  | DELETE_usuarios_id
  | GET_buckets
  | GET_buckets_bucketName
  | POST_buckets_bucketName_upload
  | DELETE_buckets_bucketName_file_fileName

fun handler :: "route \<Rightarrow> 'w collaborator \<Rightarrow> request \<Rightarrow> 'w \<Rightarrow> event list \<times> 'w" where
  "handler GET_mongodb_testar_conexao = get_mongodb_testar_conexao"
| "handler POST_usuarios = post_usuarios"
| "handler GET_usuarios = get_usuarios"
| "handler GET_usuarios_id = get_usuarios_id"
| "handler PUT_usuarios_id = put_usuarios_id"
| "handler DELETE_usuarios_id = delete_usuarios_id"
| "handler GET_buckets = get_buckets"
| "handler GET_buckets_bucketName = get_buckets_bucketName"
| "handler POST_buckets_bucketName_upload = post_buckets_bucketName_upload"
| "handler DELETE_buckets_bucketName_file_fileName = delete_buckets_bucketName_file_fileName"

text \<open>Reading a trace: the responses sent, the calls made.\<close>

fun responses :: "event list \<Rightarrow> (nat \<times> body) list" where
  "responses [] = []"
| "responses (Respond st b # es) = (st, b) # responses es"
| "responses (e # es) = responses es"

fun calls :: "event list \<Rightarrow> call list" where
  "calls [] = []"
| "calls (Call c # es) = c # calls es"
| "calls (e # es) = calls es"

text \<open>
  The constants of each handler's \<^verbatim>\<open>catch\<close> block, read off the source: the message
  given to \<^verbatim>\<open>logError\<close>, and the body sent with status 500. The probe sends its text
  with \<^verbatim>\<open>res.send\<close>; every other handler sends \<^verbatim>\<open>{ error: ... }\<close> with \<^verbatim>\<open>res.json\<close>.
\<close>

fun catch_log :: "route \<Rightarrow> string" where
  "catch_log GET_mongodb_testar_conexao = ''Erro no teste MongoDB''"
| "catch_log POST_usuarios = ''Erro ao criar usu'' @ a_acute @ ''rio''"
| "catch_log GET_usuarios = ''Erro ao listar usu'' @ a_acute @ ''rios''"
| "catch_log GET_usuarios_id = ''Erro ao buscar usu'' @ a_acute @ ''rio''"
| "catch_log PUT_usuarios_id = ''Erro ao atualizar usu'' @ a_acute @ ''rio''"
| "catch_log DELETE_usuarios_id = ''Erro ao remover usu'' @ a_acute @ ''rio''"
| "catch_log GET_buckets = ''Erro ao listar buckets''"
| "catch_log GET_buckets_bucketName = ''Erro ao listar objetos''"
| "catch_log POST_buckets_bucketName_upload = ''Erro no upload''"
| "catch_log DELETE_buckets_bucketName_file_fileName = ''Erro ao remover arquivo''"

fun catch_body :: "route \<Rightarrow> body" where
  "catch_body GET_mongodb_testar_conexao = TextBody (''Erro na conex'' @ a_tilde @ ''o com o MongoDB.'')"
| "catch_body POST_usuarios = JsonBody (error_obj (''Erro ao criar usu'' @ a_acute @ ''rio.''))"
| "catch_body GET_usuarios = JsonBody (error_obj (''Erro ao listar usu'' @ a_acute @ ''rios.''))"
| "catch_body GET_usuarios_id = JsonBody (error_obj (''Erro ao buscar usu'' @ a_acute @ ''rio.''))"
| "catch_body PUT_usuarios_id = JsonBody (error_obj (''Erro ao atualizar usu'' @ a_acute @ ''rio.''))"
| "catch_body DELETE_usuarios_id = JsonBody (error_obj (''Erro ao remover usu'' @ a_acute @ ''rio.''))"
| "catch_body GET_buckets = JsonBody (error_obj ''Erro ao listar buckets.'')"
| "catch_body GET_buckets_bucketName = JsonBody (error_obj ''Erro ao listar objetos.'')"
| "catch_body POST_buckets_bucketName_upload = JsonBody (error_obj ''Erro ao enviar arquivo.'')"
| "catch_body DELETE_buckets_bucketName_file_fileName = JsonBody (error_obj ''Erro ao remover arquivo.'')"

text \<open>Only the probe's \<^verbatim>\<open>catch\<close> block also calls \<^verbatim>\<open>console.error("Erro detalhado:", error)\<close>.\<close>

fun catch_console :: "route \<Rightarrow> js_error \<Rightarrow> event list" where
  "catch_console GET_mongodb_testar_conexao error = [ConsoleError ''Erro detalhado:'' error]"
| "catch_console r error = []"

text \<open>
  Whether a body is JSON: it went out through \<^verbatim>\<open>res.json\<close> with a value that has a
  JSON text. \<^verbatim>\<open>undefined\<close> has none (\<^verbatim>\<open>JSON.stringify(undefined)\<close> is \<^verbatim>\<open>undefined\<close>),
  and \<^verbatim>\<open>res.json(undefined)\<close> sends a body of length zero.
\<close>

fun is_json_body :: "body \<Rightarrow> bool" where
  "is_json_body (JsonBody v) = (v \<noteq> JUndefined)"
| "is_json_body (TextBody s) = False"

section \<open>Before the handler\<close>

text \<open>
  A request does not reach a handler directly. \<^verbatim>\<open>app.use(express.json())\<close> (line 17)
  runs before every route and sets \<^verbatim>\<open>req.body\<close>; Express then binds the parameters of
  the matched path pattern (\<^verbatim>\<open>:id\<close>, \<^verbatim>\<open>:bucketName\<close>, \<^verbatim>\<open>:fileName\<close>) in
  \<^verbatim>\<open>req.params\<close>; and \<^verbatim>\<open>upload.single('file')\<close> (line 151) runs before the upload
  handler and sets \<^verbatim>\<open>req.file\<close>. Each of the three either hands the request on or
  fails (a body that does not parse, a parameter that does not decode, a multipart form
  that is not accepted). The source registers no error handler, so a failure goes to the
  default error handler of Express, which answers with a status and an HTML page; both are
  carried by the failure.
\<close>

datatype mw_failure = MwFailure nat string

text \<open>
  A request as it arrives, with what the three steps make of it: the outcome of
  \<^verbatim>\<open>express.json()\<close>, of binding the path parameters, and of \<^verbatim>\<open>upload.single('file')\<close>.
\<close>

record arrival =
  arr_method :: string
  arr_path :: string
  json_outcome :: "mw_failure + json"
  params_outcome :: "mw_failure + params"
  file_outcome :: "mw_failure + uploaded_file option"

text \<open>The default error handler of Express: the failure's status, and its page as HTML text.\<close>

fun default_error_handler :: "mw_failure \<Rightarrow> event" where
  "default_error_handler (MwFailure st page) = res_status_send st page"

text \<open>The routes whose path pattern has parameters.\<close>

fun binds_params :: "route \<Rightarrow> bool" where
  "binds_params GET_usuarios_id = True"
| "binds_params PUT_usuarios_id = True"
| "binds_params DELETE_usuarios_id = True"
| "binds_params GET_buckets_bucketName = True"
| "binds_params POST_buckets_bucketName_upload = True"
| "binds_params DELETE_buckets_bucketName_file_fileName = True"
| "binds_params r = False"

text \<open>\<^verbatim>\<open>req.params\<close> of a route without parameters; its handler reads none.\<close>

definition no_params :: params where
  "no_params = \<lparr>id_param = [], bucketName = [], fileName = []\<rparr>"

text \<open>
  A route as the application serves it: \<^verbatim>\<open>express.json()\<close>, then the parameters of the
  path, then (the upload route only) \<^verbatim>\<open>upload.single('file')\<close>, then the handler; the
  first failure is answered by the default error handler and nothing after it runs.
\<close>

definition app :: "route \<Rightarrow> 'w collaborator \<Rightarrow> arrival \<Rightarrow> 'w \<Rightarrow> event list \<times> 'w" where
  "app r coll a w =
     (case json_outcome a of
        Inl e \<Rightarrow> ([default_error_handler e], w)
      | Inr b \<Rightarrow>
          (case (if binds_params r then params_outcome a else Inr no_params) of
             Inl e \<Rightarrow> ([default_error_handler e], w)
           | Inr ps \<Rightarrow>
               (case (if r = POST_buckets_bucketName_upload then file_outcome a else Inr None) of
                  Inl e \<Rightarrow> ([default_error_handler e], w)
                | Inr f \<Rightarrow>
                    handler r coll
                      \<lparr>http_method = arr_method a, path = arr_path a, params = ps,
                       body = b, file_opt = f\<rparr> w)))"

text \<open>Whether a request gets as far as the handler of the route.\<close>

definition reaches_handler :: "route \<Rightarrow> arrival \<Rightarrow> bool" where
  "reaches_handler r a =
     (case json_outcome a of
        Inl e \<Rightarrow> False
      | Inr b \<Rightarrow>
          (case (if binds_params r then params_outcome a else Inr no_params) of
             Inl e \<Rightarrow> False
           | Inr ps \<Rightarrow>
               (case (if r = POST_buckets_bucketName_upload then file_outcome a else Inr None) of
                  Inl e \<Rightarrow> False
                | Inr f \<Rightarrow> True)))"

section \<open>An in-memory document store and object store\<close>

text \<open>
  The schema the source declares for the collection:
  \<^verbatim>\<open>new mongoose.Schema({ nome: String, email: String })\<close>.
\<close>

datatype schema_type = String_type

definition UserSchema :: "(string \<times> schema_type) list" where
  "UserSchema = [(''nome'', String_type), (''email'', String_type)]"

text \<open>
  The document store client (the mongoose model \<^verbatim>\<open>User\<close> with the database behind it)
  and the object store client (\<^verbatim>\<open>aws-sdk\<close>'s S3 with the service behind it) are external
  collaborators: the source calls them and holds none of their code. The handlers above
  take the collaborator as a parameter. The rest of this section is one collaborator, an
  in-memory store written from what the specification says of the two clients: section
  4.2 (create, findAll, findById, updateById, deleteById, probe, each answering with a
  value or a StoreError), section 4.3 (listBuckets, listObjects, putObject, deleteObject),
  section 3 (a user has the schema's fields and a store-assigned identifier, an update
  overwrites only the supplied fields; a key is unique within its bucket and an upload
  under an existing key overwrites) and section 7 (a malformed identifier and an
  unreachable store are StoreErrors).
\<close>

text \<open>
  Modelled from the spec: a stored user of the document store client (not among the
  sources), section 3: its store-assigned identifier and the values of its schema paths.
\<close>

record doc =
  oid :: string
  doc_fields :: "(string \<times> json) list"

text \<open>
  Modelled from the spec: a stored object of the object store client (not among the
  sources), section 3: its payload and its content type; its key is where it is stored.
\<close>

record s3_object =
  content :: string
  content_type :: string

text \<open>
  Modelled from the spec: the state behind the two store clients (not among the sources):
  the collection in insertion order, the counter the next identifier is made from, the
  buckets with their objects by key, and for each store the error every call is rejected
  with while the store cannot be reached (section 7: connectivity loss is a StoreError).
\<close>

record world =
  users :: "doc list"
  next_oid :: nat
  buckets :: "(string \<times> (string \<times> s3_object) list) list"
  db_fault :: "js_error option"
  s3_fault :: "js_error option"

text \<open>
  Modelled from the spec: the syntax of the document store client's identifiers (not
  among the sources); section 4.1 asks for a syntactically valid store identifier. Here
  it is 24 hexadecimal digits, made from a counter and compared without regard to letter
  case.
\<close>

definition hex_digits :: string where
  "hex_digits = ''0123456789abcdef''"

fun hex_text :: "nat \<Rightarrow> nat \<Rightarrow> string" where
  "hex_text 0 n = []"
| "hex_text (Suc k) n = hex_text k (n div 16) @ [hex_digits ! (n mod 16)]"

definition oid_of :: "nat \<Rightarrow> string" where
  "oid_of n = hex_text 24 n"

definition lower_hex :: "char \<Rightarrow> char" where
  "lower_hex c =
     (if c = CHR ''A'' then CHR ''a'' else if c = CHR ''B'' then CHR ''b''
      else if c = CHR ''C'' then CHR ''c'' else if c = CHR ''D'' then CHR ''d''
      else if c = CHR ''E'' then CHR ''e'' else if c = CHR ''F'' then CHR ''f'' else c)"

definition valid_object_id :: "string \<Rightarrow> bool" where
  "valid_object_id s = (length s = 24 \<and> list_all (\<lambda>c. lower_hex c \<in> set hex_digits) s)"

text \<open>
  Modelled from the spec: the StoreError of the document store client (not among the
  sources) for a value it cannot cast (section 7: malformed id format).
\<close>

definition cast_error :: "string \<Rightarrow> js_error" where
  "cast_error what = JsError ''CastError'' (''Cast to '' @ what @ '' failed'')"

text \<open>
  Modelled from the spec: the text the document store client (not among the sources)
  stores for a number supplied where the schema says String: its decimal digits. This is
  the text JavaScript gives an integer it represents exactly and writes without an
  exponent (below \<open>10 ^ 21\<close> in absolute value); other numbers are not told apart here.
\<close>

fun decimal :: "nat \<Rightarrow> string" where
  "decimal n = (if n < 10 then [hex_digits ! n] else decimal (n div 10) @ [hex_digits ! (n mod 10)])"

definition number_text :: "int \<Rightarrow> string" where
  "number_text n = (if n < 0 then CHR ''-'' # decimal (nat (- n)) else decimal (nat n))"

text \<open>
  Modelled from the spec: the document store client (not among the sources) casting a
  supplied value to the schema type String; the specification leaves the validation of a
  document's shape to the database driver (section 1). Text stays, \<^verbatim>\<open>null\<close> and
  \<^verbatim>\<open>undefined\<close> stay, a number or a boolean becomes its text, an object stands for the
  text under its \<^verbatim>\<open>_id\<close> if it has one, and an array or any other object is a cast
  error.
\<close>

fun castString :: "json \<Rightarrow> js_error + json" where
  "castString JUndefined = Inr JUndefined"
| "castString JNull = Inr JNull"
| "castString (JStr s) = Inr (JStr s)"
| "castString (JBool b) = Inr (JStr (if b then ''true'' else ''false''))"
| "castString (JNum n) = Inr (JStr (number_text n))"
| "castString (JArr xs) = Inl (cast_error ''string'')"
| "castString (JObj kvs) =
     (case map_of kvs ''_id'' of
        Some (JStr s) \<Rightarrow> if s \<noteq> [] then Inr (JStr s) else Inl (cast_error ''string'')
      | _ \<Rightarrow> Inl (cast_error ''string''))"

fun cast_to :: "schema_type \<Rightarrow> json \<Rightarrow> js_error + json" where
  "cast_to String_type v = castString v"

text \<open>
  Modelled from the spec: the document store client (not among the sources) applying a
  schema to a supplied object, so that a record has the schema's fields and no others
  (section 3). A key that is no path of the schema is dropped, a supplied path is cast to
  its type, a path that is not supplied (or is \<^verbatim>\<open>undefined\<close>) is left out, and the first
  cast error rejects the whole object.
\<close>

fun apply_schema :: "(string \<times> schema_type) list \<Rightarrow> (string \<times> json) list \<Rightarrow> js_error + (string \<times> json) list" where
  "apply_schema [] kvs = Inr []"
| "apply_schema ((k, t) # sch) kvs =
     (case map_of kvs k of
        None \<Rightarrow> apply_schema sch kvs
      | Some v \<Rightarrow>
          (case cast_to t v of
             Inl e \<Rightarrow> Inl e
           | Inr v' \<Rightarrow>
               (case apply_schema sch kvs of
                  Inl e \<Rightarrow> Inl e
                | Inr rest \<Rightarrow> Inr (if v' = JUndefined then rest else (k, v') # rest))))"

text \<open>
  Modelled from the spec: the update of the document store client (not among the
  sources), section 3: only supplied fields overwrite. Every schema path takes the
  supplied value if there is one and keeps the stored value otherwise.
\<close>

fun set_fields :: "(string \<times> schema_type) list \<Rightarrow> (string \<times> json) list \<Rightarrow> (string \<times> json) list \<Rightarrow> (string \<times> json) list" where
  "set_fields [] upd old = []"
| "set_fields ((k, t) # sch) upd old =
     (case map_of upd k of
        Some v \<Rightarrow> (k, v) # set_fields sch upd old
      | None \<Rightarrow>
          (case map_of old k of
             Some v \<Rightarrow> (k, v) # set_fields sch upd old
           | None \<Rightarrow> set_fields sch upd old))"

text \<open>
  Modelled from the spec: reading a stored user of the document store client (not among
  the sources): the value of a path, \<^verbatim>\<open>undefined\<close> when the document has none.
\<close>

definition field :: "doc \<Rightarrow> string \<Rightarrow> json" where
  "field d k = (case map_of (doc_fields d) k of None \<Rightarrow> JUndefined | Some v \<Rightarrow> v)"

text \<open>
  Modelled from the spec: the record the document store client (not among the sources)
  hands to the handler, as \<^verbatim>\<open>res.json\<close> serialises it: the assigned identifier under
  \<^verbatim>\<open>_id\<close>, then the schema paths (section 4.1: the record with its assigned id).
\<close>

definition doc_json :: "doc \<Rightarrow> json" where
  "doc_json d = JObj ((''_id'', JStr (oid d)) # doc_fields d)"

text \<open>
  Modelled from the spec: the lookup by identifier of the document store client (not
  among the sources): the first stored user with the identifier.
\<close>

definition find_doc :: "string \<Rightarrow> doc list \<Rightarrow> doc option" where
  "find_doc i ds = find (\<lambda>d. oid d = map lower_hex i) ds"

text \<open>
  Modelled from the spec: every call of the document store client (not among the
  sources) is rejected with a StoreError while the store cannot be reached (section 7).
\<close>

definition db_call :: "world \<Rightarrow> (outcome \<times> world) \<Rightarrow> outcome \<times> world" where
  "db_call w r = (case db_fault w of Some e \<Rightarrow> (Rejected e, w) | None \<Rightarrow> r)"

text \<open>
  Modelled from the spec: \<^verbatim>\<open>probe() -> record|None|StoreError\<close> of the document store
  client (section 4.2; mongoose's \<^verbatim>\<open>User.findOne()\<close>, not among the sources): some
  stored user, or \<^verbatim>\<open>null\<close> when the collection is empty.
\<close>

definition mem_findOne :: "world \<Rightarrow> outcome \<times> world" where
  "mem_findOne w =
     db_call w (Resolved (case users w of [] \<Rightarrow> JNull | d # ds \<Rightarrow> doc_json d), w)"

text \<open>
  Modelled from the spec: the identifier the document store client (not among the
  sources) assigns to a new record (section 3: store-assigned, unique): the first
  identifier from the counter on that no stored user has. Among as many candidates as
  there are stored users and one more, one is free.
\<close>

fun next_free :: "nat \<Rightarrow> string list \<Rightarrow> nat \<Rightarrow> nat" where
  "next_free 0 used n = n"
| "next_free (Suc fuel) used n = (if oid_of n \<in> set used then next_free fuel used (Suc n) else n)"

definition new_counter :: "world \<Rightarrow> nat" where
  "new_counter w = next_free (length (users w)) (map oid (users w)) (next_oid w)"

text \<open>
  Modelled from the spec: the StoreError of the document store client (not among the
  sources) for a record whose identifier is already taken (section 3: the identifier is
  unique).
\<close>

definition duplicate_key :: js_error where
  "duplicate_key = JsError ''MongoServerError'' ''E11000 duplicate key error''"

text \<open>
  Modelled from the spec: what the document store client (not among the sources) reads
  from the value given to \<^verbatim>\<open>new User\<close>. The specification has no sentence on a body
  that is no object; here the definition does what mongoose does: \<^verbatim>\<open>null\<close> and
  \<^verbatim>\<open>undefined\<close> supply nothing, an array supplies only its indices, none of which is a
  path, and any other value that is no object is refused.
\<close>

fun supplied_entries :: "json \<Rightarrow> js_error + (string \<times> json) list" where
  "supplied_entries (JObj kvs) = Inr kvs"
| "supplied_entries (JArr xs) = Inr []"
| "supplied_entries JNull = Inr []"
| "supplied_entries JUndefined = Inr []"
| "supplied_entries v = Inl (JsError ''ObjectParameterError'' ''Parameter obj to Document() must be an object'')"

text \<open>
  Modelled from the spec: \<^verbatim>\<open>create(fields) -> record|StoreError\<close> of the document store
  client (section 4.2; mongoose's \<^verbatim>\<open>new User(b)\<close> and \<^verbatim>\<open>save()\<close>, not among the
  sources). The supplied object goes through the schema and the new record is appended.
  Without a supplied \<^verbatim>\<open>_id\<close> the store assigns the identifier (section 3). The
  specification has no sentence on a supplied \<^verbatim>\<open>_id\<close>; here the definition does what
  mongoose does, whose schemas have the path \<^verbatim>\<open>_id\<close> without declaring it: a supplied
  well-formed identifier that no stored user has becomes the identifier of the record,
  one that is taken is a duplicate key, and any other supplied \<^verbatim>\<open>_id\<close> is a cast error.
  The version key \<^verbatim>\<open>__v\<close> that mongoose keeps on a record is not part of the model.
\<close>

definition mem_create :: "json \<Rightarrow> world \<Rightarrow> outcome \<times> world" where
  "mem_create b w =
     db_call w
       (case supplied_entries b of
          Inl e \<Rightarrow> (Rejected e, w)
        | Inr kvs \<Rightarrow>
            (case apply_schema UserSchema kvs of
               Inl e \<Rightarrow> (Rejected e, w)
             | Inr fs \<Rightarrow>
                 (case map_of kvs ''_id'' of
                    None \<Rightarrow>
                      (Resolved (doc_json \<lparr>oid = oid_of (new_counter w), doc_fields = fs\<rparr>),
                       w\<lparr>users := users w @ [\<lparr>oid = oid_of (new_counter w), doc_fields = fs\<rparr>],
                         next_oid := Suc (new_counter w)\<rparr>)
                  | Some (JStr s) \<Rightarrow>
                      if \<not> valid_object_id s then (Rejected (cast_error ''ObjectId''), w)
                      else if find_doc s (users w) \<noteq> None then (Rejected duplicate_key, w)
                      else
                        (Resolved (doc_json \<lparr>oid = map lower_hex s, doc_fields = fs\<rparr>),
                         w\<lparr>users := users w @ [\<lparr>oid = map lower_hex s, doc_fields = fs\<rparr>]\<rparr>)
                  | Some v \<Rightarrow> (Rejected (cast_error ''ObjectId''), w))))"

text \<open>
  Modelled from the spec: \<^verbatim>\<open>findAll() -> sequence<record>|StoreError\<close> of the document
  store client (section 4.2; mongoose's \<^verbatim>\<open>User.find()\<close>, not among the sources).
\<close>

definition mem_find :: "world \<Rightarrow> outcome \<times> world" where
  "mem_find w = db_call w (Resolved (JArr (map doc_json (users w))), w)"

text \<open>
  Modelled from the spec: \<^verbatim>\<open>findById(id) -> record|NotFound|StoreError\<close> of the document
  store client (section 4.2; mongoose's \<^verbatim>\<open>User.findById\<close>, not among the sources). A
  malformed identifier is a StoreError, no record is \<^verbatim>\<open>null\<close>.
\<close>

definition mem_findById :: "string \<Rightarrow> world \<Rightarrow> outcome \<times> world" where
  "mem_findById i w =
     db_call w
       (if \<not> valid_object_id i then (Rejected (cast_error ''ObjectId''), w)
        else (case find_doc i (users w) of
                None \<Rightarrow> (Resolved JNull, w)
              | Some d \<Rightarrow> (Resolved (doc_json d), w)))"

text \<open>
  Modelled from the spec: \<^verbatim>\<open>updateById(id, fields) -> record|NotFound|StoreError\<close> of the
  document store client (section 4.2; mongoose's \<^verbatim>\<open>User.findByIdAndUpdate\<close>, not among
  the sources). Only supplied fields overwrite (section 3); no record is \<^verbatim>\<open>null\<close> and
  changes nothing. With \<^verbatim>\<open>{ new: true }\<close> the call resolves with the record after the
  update, otherwise with the record as it was before.
\<close>

definition mem_findByIdAndUpdate :: "string \<Rightarrow> json \<Rightarrow> bool \<Rightarrow> world \<Rightarrow> outcome \<times> world" where
  "mem_findByIdAndUpdate i b new w =
     db_call w
       (if \<not> valid_object_id i then (Rejected (cast_error ''ObjectId''), w)
        else
          (case b of
             JObj kvs \<Rightarrow>
               (case apply_schema UserSchema kvs of
                  Inl e \<Rightarrow> (Rejected e, w)
                | Inr upd \<Rightarrow>
                    (case find_doc i (users w) of
                       None \<Rightarrow> (Resolved JNull, w)
                     | Some d \<Rightarrow>
                         (Resolved (doc_json (if new then d\<lparr>doc_fields := set_fields UserSchema upd (doc_fields d)\<rparr> else d)),
                          w\<lparr>users := map (\<lambda>x. if oid x = oid d
                                                then x\<lparr>doc_fields := set_fields UserSchema upd (doc_fields x)\<rparr>
                                                else x) (users w)\<rparr>)))
           | _ \<Rightarrow> (Rejected (JsError ''ObjectParameterError'' ''Parameter obj to Document() must be an object''), w)))"

text \<open>
  Modelled from the spec: \<^verbatim>\<open>deleteById(id) -> count|StoreError\<close> of the document store
  client (section 4.2; mongoose's \<^verbatim>\<open>User.deleteOne({ _id: id })\<close>, not among the
  sources). The count of deleted records is 1 when a record had the identifier and 0 when
  none had (section 4.1: zero rows affected).
\<close>

definition mem_deleteOne :: "string \<Rightarrow> world \<Rightarrow> outcome \<times> world" where
  "mem_deleteOne i w =
     db_call w
       (if \<not> valid_object_id i then (Rejected (cast_error ''ObjectId''), w)
        else (case find_doc i (users w) of
                None \<Rightarrow> (Resolved (JObj [(''acknowledged'', JBool True), (''deletedCount'', JNum 0)]), w)
              | Some d \<Rightarrow>
                  (Resolved (JObj [(''acknowledged'', JBool True), (''deletedCount'', JNum 1)]),
                   w\<lparr>users := remove1 d (users w)\<rparr>)))"

text \<open>
  Modelled from the spec: every call of the object store client (not among the sources)
  is rejected with a StoreError while the store cannot be reached (section 7).
\<close>

definition s3_call :: "world \<Rightarrow> (outcome \<times> world) \<Rightarrow> outcome \<times> world" where
  "s3_call w r = (case s3_fault w of Some e \<Rightarrow> (Rejected e, w) | None \<Rightarrow> r)"

text \<open>
  Modelled from the spec: the StoreError of the object store client (not among the
  sources) for a bucket that does not exist (section 4.1: bucket missing gives 500).
\<close>

definition no_such_bucket :: js_error where
  "no_such_bucket = JsError ''NoSuchBucket'' ''The specified bucket does not exist''"

text \<open>
  Modelled from the spec: an object descriptor of the object store client (not among the
  sources), section 3: the key and the size of the object.
\<close>

definition object_descriptor :: "string \<times> s3_object \<Rightarrow> json" where
  "object_descriptor ko =
     JObj [(''Key'', JStr (fst ko)), (''Size'', JNum (int (length (content (snd ko)))))]"

text \<open>
  Modelled from the spec: \<^verbatim>\<open>listBuckets() -> sequence<descriptor>|StoreError\<close> of the
  object store client (section 4.3; \<^verbatim>\<open>s3.listBuckets().promise()\<close>, not among the
  sources); the sequence is under \<^verbatim>\<open>Buckets\<close>, where the handler reads it.
\<close>

definition mem_listBuckets :: "world \<Rightarrow> outcome \<times> world" where
  "mem_listBuckets w =
     s3_call w
       (Resolved (JObj [(''Buckets'', JArr (map (\<lambda>b. JObj [(''Name'', JStr (fst b))]) (buckets w)))]), w)"

text \<open>
  Modelled from the spec: \<^verbatim>\<open>listObjects(bucket) -> sequence<descriptor>|StoreError\<close> of
  the object store client (section 4.3; \<^verbatim>\<open>s3.listObjectsV2(params).promise()\<close>, not
  among the sources); the sequence is under \<^verbatim>\<open>Contents\<close>, where the handler reads it,
  empty for an empty bucket, and a missing bucket is a StoreError (section 4.1).
\<close>

definition mem_listObjectsV2 :: "string \<Rightarrow> world \<Rightarrow> outcome \<times> world" where
  "mem_listObjectsV2 b w =
     s3_call w
       (case map_of (buckets w) b of
          None \<Rightarrow> (Rejected no_such_bucket, w)
        | Some objs \<Rightarrow>
            (Resolved (JObj [(''Name'', JStr b),
                             (''KeyCount'', JNum (int (length objs))),
                             (''Contents'', JArr (map object_descriptor objs))]), w))"

text \<open>
  Modelled from the spec: \<^verbatim>\<open>putObject(bucket, key, bytes, contentType) -> metadata|StoreError\<close>
  of the object store client (section 4.3; \<^verbatim>\<open>s3.upload(params).promise()\<close>, not among
  the sources); an upload under an existing key overwrites (section 3).
\<close>

definition mem_upload :: "upload_params \<Rightarrow> world \<Rightarrow> outcome \<times> world" where
  "mem_upload p w =
     s3_call w
       (case map_of (buckets w) (Bucket p) of
          None \<Rightarrow> (Rejected no_such_bucket, w)
        | Some objs \<Rightarrow>
            (Resolved (JObj [(''Bucket'', JStr (Bucket p)), (''Key'', JStr (Key p))]),
             w\<lparr>buckets :=
                 AList.update (Bucket p)
                   (AList.update (Key p) \<lparr>content = Body p, content_type = ContentType p\<rparr> objs)
                   (buckets w)\<rparr>))"

text \<open>
  Modelled from the spec: \<^verbatim>\<open>deleteObject(bucket, key) -> ack|StoreError\<close> of the object
  store client (section 4.3; \<^verbatim>\<open>s3.deleteObject(params).promise()\<close>, not among the
  sources); the answer does not tell whether the object was there (section 4.1).
\<close>

definition mem_deleteObject :: "string \<Rightarrow> string \<Rightarrow> world \<Rightarrow> outcome \<times> world" where
  "mem_deleteObject b k w =
     s3_call w
       (case map_of (buckets w) b of
          None \<Rightarrow> (Rejected no_such_bucket, w)
        | Some objs \<Rightarrow>
            (Resolved (JObj []),
             w\<lparr>buckets := AList.update b (AList.delete k objs) (buckets w)\<rparr>))"

text \<open>
  Modelled from the spec: the two store clients (not among the sources) as one
  collaborator: each call of the handlers goes to its operation above.
\<close>

fun memory :: "world collaborator" where
  "memory User_findOne = mem_findOne"
| "memory (User_create b) = mem_create b"
| "memory User_find = mem_find"
| "memory (User_findById i) = mem_findById i"
| "memory (User_findByIdAndUpdate i b new) = mem_findByIdAndUpdate i b new"
| "memory (User_deleteOne i) = mem_deleteOne i"
| "memory S3_listBuckets = mem_listBuckets"
| "memory (S3_listObjectsV2 b) = mem_listObjectsV2 b"
| "memory (S3_upload p) = mem_upload p"
| "memory (S3_deleteObject b k) = mem_deleteObject b k"

section \<open>Concrete worlds and requests\<close>

text \<open>
  A world with one user and two buckets, the same world with the database out of reach,
  and requests built from their parts; the theorems are run on them.
\<close>

definition ex_world :: world where
  "ex_world =
     \<lparr>users = [\<lparr>oid = ''000000000000000000000000'',
                 doc_fields = [(''nome'', JStr ''Ana''), (''email'', JStr ''ana@x.com'')]\<rparr>],
      next_oid = 1,
      buckets = [(''my-bucket'', [(''a.txt'', \<lparr>content = ''hello'', content_type = ''text/plain''\<rparr>)]),
                 (''empty-bucket'', [])],
      db_fault = None,
      s3_fault = None\<rparr>"

definition mongo_down :: js_error where
  "mongo_down = JsError ''MongoNetworkError'' ''connect ECONNREFUSED 127.0.0.1:27017''"

definition down_world :: world where
  "down_world = ex_world\<lparr>db_fault := Some mongo_down\<rparr>"

definition ex_request :: "string \<Rightarrow> string \<Rightarrow> string \<Rightarrow> string \<Rightarrow> string \<Rightarrow> json \<Rightarrow> uploaded_file option \<Rightarrow> request" where
  "ex_request m p i b k bd f =
     \<lparr>http_method = m, path = p,
      params = \<lparr>id_param = i, bucketName = b, fileName = k\<rparr>,
      body = bd, file_opt = f\<rparr>"

definition probe_request :: request where
  "probe_request = ex_request ''GET'' ''/mongodb/testar-conexao'' [] [] [] (JObj []) None"

definition list_request :: request where
  "list_request = ex_request ''GET'' ''/usuarios'' [] [] [] (JObj []) None"

definition empty_bucket_request :: request where
  "empty_bucket_request = ex_request ''GET'' ''/buckets/empty-bucket'' [] ''empty-bucket'' [] (JObj []) None"

definition b_txt :: uploaded_file where
  "b_txt = \<lparr>originalname = ''b.txt'', buffer = ''bytes'', mimetype = ''text/plain''\<rparr>"

definition upload_request :: "uploaded_file option \<Rightarrow> request" where
  "upload_request f = ex_request ''POST'' ''/buckets/my-bucket/upload'' [] ''my-bucket'' [] (JObj []) f"

definition ana_request :: "string \<Rightarrow> json \<Rightarrow> request" where
  "ana_request m bd =
     ex_request m ''/usuarios/000000000000000000000000'' ''000000000000000000000000'' [] [] bd None"

definition delete_a_txt :: request where
  "delete_a_txt = ex_request ''DELETE'' ''/buckets/my-bucket/file/a.txt'' [] ''my-bucket'' ''a.txt'' (JObj []) None"

definition world_without_a_txt :: world where
  "world_without_a_txt = ex_world\<lparr>buckets := [(''my-bucket'', []), (''empty-bucket'', [])]\<rparr>"

definition get_user_request :: "string \<Rightarrow> request" where
  "get_user_request i = ex_request ''GET'' (''/usuarios/'' @ i) i [] [] (JObj []) None"


definition put_request :: "string \<Rightarrow> json \<Rightarrow> request" where
  "put_request i bd = ex_request ''PUT'' (''/usuarios/'' @ i) i [] [] bd None"

definition unparsed_arrival :: arrival where
  "unparsed_arrival =
     \<lparr>arr_method = ''POST'', arr_path = ''/usuarios'',
      json_outcome = Inl (MwFailure 400 ''<pre>SyntaxError: Unexpected end of JSON input</pre>''),
      params_outcome = Inr no_params,
      file_outcome = Inr None\<rparr>"

definition list_arrival :: arrival where
  "list_arrival =
     \<lparr>arr_method = ''GET'', arr_path = ''/usuarios'',
      json_outcome = Inr (JObj []),
      params_outcome = Inr no_params,
      file_outcome = Inr None\<rparr>"

lemmas express_defs =
  logInfo_def logError_def res_status_json_def res_json_def res_status_send_def

lemmas handler_defs =
  get_mongodb_testar_conexao_def post_usuarios_def get_usuarios_def get_usuarios_id_def
  put_usuarios_id_def delete_usuarios_id_def get_buckets_def get_buckets_bucketName_def
  post_buckets_bucketName_upload_def delete_buckets_bucketName_file_fileName_def

lemmas mem_defs =
  mem_findOne_def mem_create_def mem_find_def mem_findById_def mem_findByIdAndUpdate_def
  mem_deleteOne_def mem_listBuckets_def mem_listObjectsV2_def mem_upload_def
  mem_deleteObject_def db_call_def s3_call_def

section \<open>One response on every path\<close>

text \<open>
  C2. Whatever the route, the request, the collaborator and the state of the outside
  world, and so on every path of every handler (success, not found, missing file,
  caught failure), the trace of the handler holds exactly one response: one status with
  one body. A collaborator here answers every call, with a value or with an error.
\<close>

theorem C2_exactly_one_response:
  "length (responses (fst (handler r coll req w))) = 1"
  by (cases r)
     (simp_all add: handler_defs express_defs Let_def
        split: prod.splits outcome.splits sum.splits option.splits)

section \<open>The failure path\<close>

text \<open>
  C1, as amended. Whatever the route, the request and the collaborator: when the call the
  handler makes is rejected with an error \<open>e\<close>, the handler does, in this order and
  nothing else, the call, then (the probe only) \<^verbatim>\<open>console.error\<close>, then
  \<^verbatim>\<open>logError\<close> with the route's message, the request and \<open>e\<close>, then one response
  with status 500 and the route's fixed body. That body is a function of the route alone,
  so nothing of \<open>e\<close> reaches it; it is a JSON object \<^verbatim>\<open>{ error: ... }\<close> for every route
  but the connectivity probe, whose body is plain text.
\<close>

theorem C1_failure_path_uniform:
  "Call c \<in> set (fst (handler r coll req w)) \<Longrightarrow> fst (coll c w) = Rejected e \<Longrightarrow>
   fst (handler r coll req w) =
     Call c # catch_console r e @ [LogError (catch_log r) req e, Respond 500 (catch_body r)]
   \<and> is_json_body (catch_body r) = (r \<noteq> GET_mongodb_testar_conexao)"
  by (cases r)
     (auto simp add: handler_defs express_defs error_obj_def Let_def
        split: prod.splits outcome.splits sum.splits option.splits if_splits)

text \<open>
  C1 at a concrete input: listing the users while the database is out of reach logs the
  rejection and answers 500 with the fixed JSON body.
\<close>

theorem C1_failure_path_uniform_witness:
  "Call User_find \<in> set (fst (handler GET_usuarios memory list_request down_world))
   \<and> fst (memory User_find down_world) = Rejected mongo_down
   \<and> fst (handler GET_usuarios memory list_request down_world) =
       [Call User_find,
        LogError (''Erro ao listar usu'' @ a_acute @ ''rios'') list_request mongo_down,
        Respond 500 (JsonBody (JObj [(''error'', JStr (''Erro ao listar usu'' @ a_acute @ ''rios.''))]))]"
proof -
  have c: "Call User_find \<in> set (fst (handler GET_usuarios memory list_request down_world))"
    by (simp add: handler_defs express_defs mem_defs down_world_def ex_world_def)
  have r: "fst (memory User_find down_world) = Rejected mongo_down"
    by (simp add: mem_defs down_world_def ex_world_def)
  from C1_failure_path_uniform [OF c r] c r show ?thesis
    by (simp add: error_obj_def)
qed

text \<open>
  C1 as stated fails at the connectivity probe: with the database out of reach its call
  is rejected, and the body it sends with status 500 is the text given to
  \<^verbatim>\<open>res.send\<close>, not JSON.
\<close>

theorem C1_probe_failure_body_not_json:
  "fst (memory User_findOne down_world) = Rejected mongo_down
   \<and> responses (fst (handler GET_mongodb_testar_conexao memory probe_request down_world))
       = [(500, TextBody (''Erro na conex'' @ a_tilde @ ''o com o MongoDB.''))]
   \<and> \<not> is_json_body (TextBody (''Erro na conex'' @ a_tilde @ ''o com o MongoDB.''))"
  by (simp add: handler_defs express_defs mem_defs down_world_def ex_world_def)

section \<open>Which bodies are JSON\<close>

text \<open>
  What the steps before the handler leave of a request, and what bodies the handlers
  send: the facts the theorem on the served routes rests on.
\<close>

lemma default_error_handler_text:
  "\<exists>st page. default_error_handler e = Respond st (TextBody page)"
  by (cases e) (simp add: res_status_send_def)

lemma app_failed:
  "\<not> reaches_handler r a \<Longrightarrow> \<exists>st page. app r coll a w = ([Respond st (TextBody page)], w)"
  unfolding reaches_handler_def app_def
  by (auto simp: default_error_handler_text split: sum.splits if_splits)

lemma app_reached:
  "reaches_handler r a \<Longrightarrow> \<exists>req. app r coll a w = handler r coll req w"
  unfolding reaches_handler_def app_def
  by (auto split: sum.splits if_splits)

lemma handler_bodies:
  "(st, b) \<in> set (responses (fst (handler r coll req w))) \<Longrightarrow>
     (r \<noteq> GET_mongodb_testar_conexao \<longrightarrow> (\<exists>v. b = JsonBody v))
   \<and> (r = GET_mongodb_testar_conexao \<longrightarrow> (\<exists>t. b = TextBody t))
   \<and> (b = JsonBody JUndefined \<longrightarrow>
        (st = 200 \<or> st = 201)
        \<and> r \<in> {POST_usuarios, GET_usuarios, GET_buckets, GET_buckets_bucketName})"
  by (cases r)
     (auto simp add: handler_defs express_defs error_obj_def message_obj_def Let_def
        split: prod.splits outcome.splits sum.splits option.splits if_splits)

text \<open>
  C9, as amended. On each of the ten routes a response body is JSON exactly when the
  request gets as far as the handler, the route is not the connectivity probe, and the
  value given to \<^verbatim>\<open>res.json\<close> is not \<^verbatim>\<open>undefined\<close>. In detail: every response of the
  nine handlers other than the probe goes out through \<^verbatim>\<open>res.json\<close>; every response of
  the probe (its two 200 answers and its 500 answer) is plain text sent with
  \<^verbatim>\<open>res.send\<close>; a request that fails in \<^verbatim>\<open>express.json()\<close>, in the binding of the
  path parameters or in \<^verbatim>\<open>upload.single('file')\<close> is answered by the default error
  handler with an HTML page, and no collaborator is called; and the body of
  \<^verbatim>\<open>res.json(undefined)\<close>, which is empty, can occur only on a 200 or 201 answer of
  create user, list users, list buckets or list objects.
\<close>

theorem C9_json_bodies_except_probe:
  assumes m: "(st, b) \<in> set (responses (fst (app r coll a w)))"
  shows
    "is_json_body b =
       (reaches_handler r a \<and> r \<noteq> GET_mongodb_testar_conexao \<and> b \<noteq> JsonBody JUndefined)
   \<and> (reaches_handler r a \<longrightarrow> r \<noteq> GET_mongodb_testar_conexao \<longrightarrow> (\<exists>v. b = JsonBody v))
   \<and> (reaches_handler r a \<longrightarrow> r = GET_mongodb_testar_conexao \<longrightarrow> (\<exists>t. b = TextBody t))
   \<and> (\<not> reaches_handler r a \<longrightarrow> (\<exists>t. b = TextBody t) \<and> calls (fst (app r coll a w)) = [])
   \<and> (b = JsonBody JUndefined \<longrightarrow>
        (st = 200 \<or> st = 201)
        \<and> r \<in> {POST_usuarios, GET_usuarios, GET_buckets, GET_buckets_bucketName})"
proof (cases "reaches_handler r a")
  case True
  then obtain req where "app r coll a w = handler r coll req w"
    using app_reached [of r a coll w] by blast
  with m have "(st, b) \<in> set (responses (fst (handler r coll req w)))"
    by simp
  from handler_bodies [OF this] True show ?thesis
    by (cases b) auto
next
  case False
  then obtain st' page where "app r coll a w = ([Respond st' (TextBody page)], w)"
    using app_failed [of r a coll w] by blast
  with m False show ?thesis
    by auto
qed

text \<open>
  C9 at concrete inputs: the list of users is a JSON body; a POST whose body does not
  parse is answered with the HTML page of the default error handler and reaches neither
  the handler nor the store.
\<close>

theorem C9_json_bodies_except_probe_witness:
  "(200, JsonBody (JArr [JObj [(''_id'', JStr ''000000000000000000000000''),
                               (''nome'', JStr ''Ana''), (''email'', JStr ''ana@x.com'')]]))
     \<in> set (responses (fst (app GET_usuarios memory list_arrival ex_world)))
   \<and> reaches_handler GET_usuarios list_arrival
   \<and> is_json_body (JsonBody (JArr [JObj [(''_id'', JStr ''000000000000000000000000''),
                               (''nome'', JStr ''Ana''), (''email'', JStr ''ana@x.com'')]]))
   \<and> (400, TextBody ''<pre>SyntaxError: Unexpected end of JSON input</pre>'')
     \<in> set (responses (fst (app POST_usuarios memory unparsed_arrival ex_world)))
   \<and> \<not> reaches_handler POST_usuarios unparsed_arrival
   \<and> \<not> is_json_body (TextBody ''<pre>SyntaxError: Unexpected end of JSON input</pre>'')
   \<and> calls (fst (app POST_usuarios memory unparsed_arrival ex_world)) = []"
proof -
  have m1: "(200, JsonBody (JArr [JObj [(''_id'', JStr ''000000000000000000000000''),
                               (''nome'', JStr ''Ana''), (''email'', JStr ''ana@x.com'')]]))
     \<in> set (responses (fst (app GET_usuarios memory list_arrival ex_world)))"
    by (simp add: app_def list_arrival_def handler_defs express_defs mem_defs ex_world_def doc_json_def)
  have r1: "reaches_handler GET_usuarios list_arrival"
    by (simp add: reaches_handler_def list_arrival_def)
  have m2: "(400, TextBody ''<pre>SyntaxError: Unexpected end of JSON input</pre>'')
     \<in> set (responses (fst (app POST_usuarios memory unparsed_arrival ex_world)))"
    by (simp add: app_def unparsed_arrival_def express_defs)
  have r2: "\<not> reaches_handler POST_usuarios unparsed_arrival"
    by (simp add: reaches_handler_def unparsed_arrival_def)
  from C9_json_bodies_except_probe [OF m1] C9_json_bodies_except_probe [OF m2] m1 m2 r1 r2 show ?thesis
    by simp
qed

text \<open>
  C9 as stated fails at the connectivity probe: against a reachable database holding a
  user it answers 200 with a plain-text body.
\<close>

theorem C9_probe_body_not_json:
  "responses (fst (handler GET_mongodb_testar_conexao memory probe_request ex_world))
       = [(200, TextBody (''Conex'' @ a_tilde @ ''o com MongoDB OK - Usu'' @ a_acute @ ''rio encontrado.''))]
   \<and> \<not> is_json_body (TextBody (''Conex'' @ a_tilde @ ''o com MongoDB OK - Usu'' @ a_acute @ ''rio encontrado.''))"
  by (simp add: handler_defs express_defs mem_defs ex_world_def doc_json_def)

section \<open>Listing an empty bucket\<close>

text \<open>
  C3. Whenever \<^verbatim>\<open>listObjectsV2\<close> resolves with data whose \<^verbatim>\<open>Contents\<close> is the empty
  array, which is how the object store answers for a bucket that exists and holds
  nothing, the list-objects handler makes that one call and responds with status 200
  and the empty array as its JSON body.
\<close>

theorem C3_empty_bucket_lists_empty:
  "coll (S3_listObjectsV2 (bucketName (params req))) w = (Resolved data, w') \<Longrightarrow>
   get_prop data ''Contents'' = Inr (JArr []) \<Longrightarrow>
   get_buckets_bucketName coll req w =
     ([Call (S3_listObjectsV2 (bucketName (params req))), Respond 200 (JsonBody (JArr []))], w')"
  by (simp add: get_buckets_bucketName_def express_defs)

text \<open>C3 on the in-memory object store, for its bucket that exists and is empty.\<close>

theorem C3_empty_bucket_lists_empty_witness:
  "memory (S3_listObjectsV2 ''empty-bucket'') ex_world =
     (Resolved (JObj [(''Name'', JStr ''empty-bucket''), (''KeyCount'', JNum 0), (''Contents'', JArr [])]), ex_world)
   \<and> get_buckets_bucketName memory empty_bucket_request ex_world =
     ([Call (S3_listObjectsV2 ''empty-bucket''), Respond 200 (JsonBody (JArr []))], ex_world)"
proof -
  have b: "bucketName (params empty_bucket_request) = ''empty-bucket''"
    by (simp add: empty_bucket_request_def ex_request_def)
  have s: "memory (S3_listObjectsV2 (bucketName (params empty_bucket_request))) ex_world =
     (Resolved (JObj [(''Name'', JStr ''empty-bucket''), (''KeyCount'', JNum 0), (''Contents'', JArr [])]), ex_world)"
    by (simp add: b mem_defs ex_world_def)
  have g: "get_prop (JObj [(''Name'', JStr ''empty-bucket''), (''KeyCount'', JNum 0), (''Contents'', JArr [])]) ''Contents''
      = Inr (JArr [])"
    by simp
  from C3_empty_bucket_lists_empty
         [where coll = memory and req = empty_bucket_request and w = ex_world, OF s g] s
  show ?thesis
    by (simp add: b)
qed

section \<open>Uploading\<close>

text \<open>
  C4. With no file attached the upload handler responds 400 with
  \<^verbatim>\<open>{ error: 'Nenhum arquivo enviado.' }\<close>, makes no collaborator call and leaves the
  world as it was. With a file attached it calls \<^verbatim>\<open>s3.upload\<close> with the bucket of the
  path, the file's original name as the key, its bytes and its content type; when that
  call resolves with \<open>data\<close> it responds 200 with the upload confirmation and \<open>data\<close>.
\<close>

theorem C4_upload_requires_file:
  "(file_opt req = None \<longrightarrow>
      post_buckets_bucketName_upload coll req w =
        ([Respond 400 (JsonBody (error_obj ''Nenhum arquivo enviado.''))], w)
      \<and> calls (fst (post_buckets_bucketName_upload coll req w)) = [])
   \<and> (file_opt req = Some f \<longrightarrow>
        coll (S3_upload \<lparr>Bucket = bucketName (params req), Key = originalname f,
                         Body = buffer f, ContentType = mimetype f\<rparr>) w = (Resolved data, w') \<longrightarrow>
        post_buckets_bucketName_upload coll req w =
          ([Call (S3_upload \<lparr>Bucket = bucketName (params req), Key = originalname f,
                              Body = buffer f, ContentType = mimetype f\<rparr>),
            Respond 200 (JsonBody (JObj [(''message'', JStr (''Upload conclu'' @ i_acute @ ''do.'')),
                                         (''data'', data)]))], w'))"
  by (simp add: post_buckets_bucketName_upload_def express_defs Let_def)

text \<open>
  C4 on the in-memory object store: an upload without a file, and an upload of
  \<^verbatim>\<open>b.txt\<close> into an existing bucket.
\<close>

theorem C4_upload_requires_file_witness:
  "post_buckets_bucketName_upload memory (upload_request None) ex_world =
     ([Respond 400 (JsonBody (JObj [(''error'', JStr ''Nenhum arquivo enviado.'')]))], ex_world)
   \<and> calls (fst (post_buckets_bucketName_upload memory (upload_request None) ex_world)) = []
   \<and> fst (memory (S3_upload \<lparr>Bucket = ''my-bucket'', Key = ''b.txt'', Body = ''bytes'', ContentType = ''text/plain''\<rparr>) ex_world)
       = Resolved (JObj [(''Bucket'', JStr ''my-bucket''), (''Key'', JStr ''b.txt'')])
   \<and> fst (post_buckets_bucketName_upload memory (upload_request (Some b_txt)) ex_world) =
       [Call (S3_upload \<lparr>Bucket = ''my-bucket'', Key = ''b.txt'', Body = ''bytes'', ContentType = ''text/plain''\<rparr>),
        Respond 200 (JsonBody (JObj [(''message'', JStr (''Upload conclu'' @ i_acute @ ''do.'')),
             (''data'', JObj [(''Bucket'', JStr ''my-bucket''), (''Key'', JStr ''b.txt'')])]))]"
proof -
  have n: "file_opt (upload_request None) = None"
    by (simp add: upload_request_def ex_request_def)
  have f: "file_opt (upload_request (Some b_txt)) = Some b_txt"
    by (simp add: upload_request_def ex_request_def)
  have k: "\<lparr>Bucket = bucketName (params (upload_request (Some b_txt))),
         Key = originalname b_txt, Body = buffer b_txt, ContentType = mimetype b_txt\<rparr>
       = \<lparr>Bucket = ''my-bucket'', Key = ''b.txt'', Body = ''bytes'', ContentType = ''text/plain''\<rparr>"
    by (simp add: b_txt_def upload_request_def ex_request_def)
  have r: "fst (memory (S3_upload \<lparr>Bucket = ''my-bucket'', Key = ''b.txt'', Body = ''bytes'', ContentType = ''text/plain''\<rparr>) ex_world)
       = Resolved (JObj [(''Bucket'', JStr ''my-bucket''), (''Key'', JStr ''b.txt'')])"
    by (simp add: mem_defs ex_world_def)
  then obtain w' where s: "memory (S3_upload \<lparr>Bucket = bucketName (params (upload_request (Some b_txt))),
         Key = originalname b_txt, Body = buffer b_txt, ContentType = mimetype b_txt\<rparr>) ex_world
       = (Resolved (JObj [(''Bucket'', JStr ''my-bucket''), (''Key'', JStr ''b.txt'')]), w')"
    unfolding k
    by (cases "memory (S3_upload \<lparr>Bucket = ''my-bucket'', Key = ''b.txt'', Body = ''bytes'', ContentType = ''text/plain''\<rparr>) ex_world") simp
  from C4_upload_requires_file [where req = "upload_request None" and coll = memory and w = ex_world] n
  have a: "post_buckets_bucketName_upload memory (upload_request None) ex_world =
     ([Respond 400 (JsonBody (JObj [(''error'', JStr ''Nenhum arquivo enviado.'')]))], ex_world)
   \<and> calls (fst (post_buckets_bucketName_upload memory (upload_request None) ex_world)) = []"
    by (simp add: error_obj_def)
  from C4_upload_requires_file [where req = "upload_request (Some b_txt)" and coll = memory
      and w = ex_world and f = b_txt and w' = w'] f s
  have b: "post_buckets_bucketName_upload memory (upload_request (Some b_txt)) ex_world =
          ([Call (S3_upload \<lparr>Bucket = bucketName (params (upload_request (Some b_txt))), Key = originalname b_txt,
                              Body = buffer b_txt, ContentType = mimetype b_txt\<rparr>),
            Respond 200 (JsonBody (JObj [(''message'', JStr (''Upload conclu'' @ i_acute @ ''do.'')),
                                         (''data'', JObj [(''Bucket'', JStr ''my-bucket''), (''Key'', JStr ''b.txt'')])]))], w')"
    by simp
  from a b r show ?thesis
    unfolding k by simp
qed

section \<open>Users: delete and get by id\<close>

text \<open>Identifiers used below, checked against the in-memory store's syntax.\<close>

lemma valid_oid0: "valid_object_id ''000000000000000000000000''"
  by (simp add: valid_object_id_def lower_hex_def hex_digits_def)

lemma valid_oid7: "valid_object_id ''0000000000000000000000A7''"
  by (simp add: valid_object_id_def lower_hex_def hex_digits_def)

text \<open>
  C5. When \<^verbatim>\<open>deleteOne\<close> resolves with \<^verbatim>\<open>deletedCount\<close> 0 (no record has the id) the
  delete-user handler responds 404 with the not-found message; when it resolves with a
  count other than 0 (the record was deleted) it responds 200 with the confirmation
  message. Hence, if a first delete removes the record and a second one, on the state
  the first left, finds none, the first request is answered 200 and the second 404.
\<close>

theorem C5_delete_user_status:
  "(coll (User_deleteOne (id_param (params req))) w = (Resolved result, w1) \<longrightarrow>
      get_prop result ''deletedCount'' = Inr (JNum 0) \<longrightarrow>
      delete_usuarios_id coll req w =
        ([Call (User_deleteOne (id_param (params req))),
          Respond 404 (JsonBody (error_obj (''Usu'' @ a_acute @ ''rio n'' @ a_tilde @ ''o encontrado.'')))], w1))
   \<and> (coll (User_deleteOne (id_param (params req))) w = (Resolved result, w1) \<longrightarrow>
      get_prop result ''deletedCount'' = Inr (JNum n) \<longrightarrow> n \<noteq> 0 \<longrightarrow>
      delete_usuarios_id coll req w =
        ([Call (User_deleteOne (id_param (params req))),
          Respond 200 (JsonBody (message_obj (''Usu'' @ a_acute @ ''rio removido com sucesso.'')))], w1))
   \<and> (coll (User_deleteOne (id_param (params req))) w = (Resolved result, w1) \<longrightarrow>
      get_prop result ''deletedCount'' = Inr (JNum 1) \<longrightarrow>
      coll (User_deleteOne (id_param (params req))) w1 = (Resolved result2, w2) \<longrightarrow>
      get_prop result2 ''deletedCount'' = Inr (JNum 0) \<longrightarrow>
      map fst (responses (fst (delete_usuarios_id coll req w))) = [200]
      \<and> snd (delete_usuarios_id coll req w) = w1
      \<and> map fst (responses (fst (delete_usuarios_id coll req w1))) = [404])"
  by (simp add: delete_usuarios_id_def express_defs)

text \<open>
  C5 on the in-memory document store: the stored user is deleted twice; the first
  request is answered 200 and empties the collection, the second is answered 404.
\<close>

theorem C5_delete_user_status_witness:
  "memory (User_deleteOne ''000000000000000000000000'') ex_world =
     (Resolved (JObj [(''acknowledged'', JBool True), (''deletedCount'', JNum 1)]), ex_world\<lparr>users := []\<rparr>)
   \<and> memory (User_deleteOne ''000000000000000000000000'') (ex_world\<lparr>users := []\<rparr>) =
     (Resolved (JObj [(''acknowledged'', JBool True), (''deletedCount'', JNum 0)]), ex_world\<lparr>users := []\<rparr>)
   \<and> map fst (responses (fst (delete_usuarios_id memory (ana_request ''DELETE'' (JObj [])) ex_world))) = [200]
   \<and> snd (delete_usuarios_id memory (ana_request ''DELETE'' (JObj [])) ex_world) = ex_world\<lparr>users := []\<rparr>
   \<and> map fst (responses (fst (delete_usuarios_id memory (ana_request ''DELETE'' (JObj [])) (ex_world\<lparr>users := []\<rparr>)))) = [404]"
proof -
  have i: "id_param (params (ana_request ''DELETE'' (JObj []))) = ''000000000000000000000000''"
    by (simp add: ana_request_def ex_request_def)
  have s1: "memory (User_deleteOne (id_param (params (ana_request ''DELETE'' (JObj []))))) ex_world =
     (Resolved (JObj [(''acknowledged'', JBool True), (''deletedCount'', JNum 1)]), ex_world\<lparr>users := []\<rparr>)"
    unfolding i by (simp add: mem_defs ex_world_def valid_oid0 find_doc_def lower_hex_def)
  have s2: "memory (User_deleteOne (id_param (params (ana_request ''DELETE'' (JObj []))))) (ex_world\<lparr>users := []\<rparr>) =
     (Resolved (JObj [(''acknowledged'', JBool True), (''deletedCount'', JNum 0)]), ex_world\<lparr>users := []\<rparr>)"
    unfolding i by (simp add: mem_defs ex_world_def valid_oid0 find_doc_def)
  have g1: "get_prop (JObj [(''acknowledged'', JBool True), (''deletedCount'', JNum 1)]) ''deletedCount'' = Inr (JNum 1)"
    by simp
  have g2: "get_prop (JObj [(''acknowledged'', JBool True), (''deletedCount'', JNum 0)]) ''deletedCount'' = Inr (JNum 0)"
    by simp
  from C5_delete_user_status [where coll = memory and req = "ana_request ''DELETE'' (JObj [])" and w = ex_world
      and ?w1.0 = "ex_world\<lparr>users := []\<rparr>" and ?w2.0 = "ex_world\<lparr>users := []\<rparr>"
      and result = "JObj [(''acknowledged'', JBool True), (''deletedCount'', JNum 1)]"
      and ?result2.0 = "JObj [(''acknowledged'', JBool True), (''deletedCount'', JNum 0)]"]
    s1 s2 g1 g2
  show ?thesis
    unfolding i by simp
qed

text \<open>
  C8. The get-user handler maps the three outcomes of \<^verbatim>\<open>findById\<close>: a rejection, which
  is how the store answers a syntactically malformed identifier, gives one
  \<^verbatim>\<open>logError\<close> and status 500 with the generic message (not 404); \<^verbatim>\<open>null\<close>, the
  answer for a well-formed identifier that matches no record, gives 404 with the
  not-found message; a record gives 200 with that record as the body.
\<close>

theorem C8_get_user_by_id_status:
  "(coll (User_findById (id_param (params req))) w = (Rejected e, w1) \<longrightarrow>
      get_usuarios_id coll req w =
        ([Call (User_findById (id_param (params req))),
          LogError (''Erro ao buscar usu'' @ a_acute @ ''rio'') req e,
          Respond 500 (JsonBody (error_obj (''Erro ao buscar usu'' @ a_acute @ ''rio.'')))], w1))
   \<and> (coll (User_findById (id_param (params req))) w = (Resolved JNull, w1) \<longrightarrow>
      get_usuarios_id coll req w =
        ([Call (User_findById (id_param (params req))),
          Respond 404 (JsonBody (error_obj (''Usu'' @ a_acute @ ''rio n'' @ a_tilde @ ''o encontrado.'')))], w1))
   \<and> (coll (User_findById (id_param (params req))) w = (Resolved user, w1) \<longrightarrow> truthy user \<longrightarrow>
      get_usuarios_id coll req w =
        ([Call (User_findById (id_param (params req))), Respond 200 (JsonBody user)], w1))"
  by (simp add: get_usuarios_id_def express_defs)

text \<open>
  C8 on the in-memory document store: the malformed identifier \<^verbatim>\<open>abc\<close>, a well-formed
  identifier of no record, and the identifier of the stored user.
\<close>

theorem C8_get_user_by_id_status_witness:
  "memory (User_findById ''abc'') ex_world = (Rejected (cast_error ''ObjectId''), ex_world)
   \<and> responses (fst (get_usuarios_id memory (get_user_request ''abc'') ex_world)) =
        [(500, JsonBody (JObj [(''error'', JStr (''Erro ao buscar usu'' @ a_acute @ ''rio.''))]))]
   \<and> memory (User_findById ''0000000000000000000000A7'') ex_world = (Resolved JNull, ex_world)
   \<and> responses (fst (get_usuarios_id memory (get_user_request ''0000000000000000000000A7'') ex_world)) =
        [(404, JsonBody (JObj [(''error'', JStr (''Usu'' @ a_acute @ ''rio n'' @ a_tilde @ ''o encontrado.''))]))]
   \<and> responses (fst (get_usuarios_id memory (get_user_request ''000000000000000000000000'') ex_world)) =
        [(200, JsonBody (JObj [(''_id'', JStr ''000000000000000000000000''),
                               (''nome'', JStr ''Ana''), (''email'', JStr ''ana@x.com'')]))]"
proof -
  have i: "\<And>i. id_param (params (get_user_request i)) = i"
    by (simp add: get_user_request_def ex_request_def)
  have s1: "memory (User_findById (id_param (params (get_user_request ''abc'')))) ex_world
      = (Rejected (cast_error ''ObjectId''), ex_world)"
    unfolding i by (simp add: mem_defs ex_world_def valid_object_id_def)
  have s2: "memory (User_findById (id_param (params (get_user_request ''0000000000000000000000A7'')))) ex_world
      = (Resolved JNull, ex_world)"
    unfolding i by (simp add: mem_defs ex_world_def valid_oid7 find_doc_def lower_hex_def)
  have s3: "memory (User_findById (id_param (params (get_user_request ''000000000000000000000000'')))) ex_world
      = (Resolved (JObj [(''_id'', JStr ''000000000000000000000000''),
                               (''nome'', JStr ''Ana''), (''email'', JStr ''ana@x.com'')]), ex_world)"
    unfolding i by (simp add: mem_defs ex_world_def valid_oid0 find_doc_def lower_hex_def doc_json_def)
  have t: "truthy (JObj [(''_id'', JStr ''000000000000000000000000''),
                               (''nome'', JStr ''Ana''), (''email'', JStr ''ana@x.com'')])"
    by simp
  from C8_get_user_by_id_status [where coll = memory and req = "get_user_request ''abc''" and w = ex_world
      and e = "cast_error ''ObjectId''" and ?w1.0 = ex_world] s1
  have a: "responses (fst (get_usuarios_id memory (get_user_request ''abc'') ex_world)) =
        [(500, JsonBody (JObj [(''error'', JStr (''Erro ao buscar usu'' @ a_acute @ ''rio.''))]))]"
    by (simp add: error_obj_def)
  from C8_get_user_by_id_status [where coll = memory and req = "get_user_request ''0000000000000000000000A7''" and w = ex_world
      and ?w1.0 = ex_world] s2
  have b: "responses (fst (get_usuarios_id memory (get_user_request ''0000000000000000000000A7'') ex_world)) =
        [(404, JsonBody (JObj [(''error'', JStr (''Usu'' @ a_acute @ ''rio n'' @ a_tilde @ ''o encontrado.''))]))]"
    by (simp add: error_obj_def)
  from C8_get_user_by_id_status [where coll = memory and req = "get_user_request ''000000000000000000000000''" and w = ex_world
      and ?w1.0 = ex_world and user = "JObj [(''_id'', JStr ''000000000000000000000000''),
                               (''nome'', JStr ''Ana''), (''email'', JStr ''ana@x.com'')]"] s3 t
  have c: "responses (fst (get_usuarios_id memory (get_user_request ''000000000000000000000000'') ex_world)) =
        [(200, JsonBody (JObj [(''_id'', JStr ''000000000000000000000000''),
                               (''nome'', JStr ''Ana''), (''email'', JStr ''ana@x.com'')]))]"
    by simp
  from a b c s1 s2 show ?thesis
    unfolding i by simp
qed

section \<open>Deleting an object\<close>

text \<open>
  C6. Whenever \<^verbatim>\<open>deleteObject\<close> resolves, whatever it resolves with and whatever the
  state of the store, the delete-object handler responds 200 with the confirmation; so
  two deletes of the same key that both resolve are both answered 200. On no path does
  the handler respond 404: its status is 200 or 500.
\<close>

theorem C6_delete_object_always_200:
  "(coll (S3_deleteObject (bucketName (params req)) (fileName (params req))) w = (Resolved ack, w1) \<longrightarrow>
      delete_buckets_bucketName_file_fileName coll req w =
        ([Call (S3_deleteObject (bucketName (params req)) (fileName (params req))),
          Respond 200 (JsonBody (message_obj ''Arquivo removido.''))], w1))
   \<and> (coll (S3_deleteObject (bucketName (params req)) (fileName (params req))) w = (Resolved ack, w1) \<longrightarrow>
      coll (S3_deleteObject (bucketName (params req)) (fileName (params req))) w1 = (Resolved ack2, w2) \<longrightarrow>
      responses (fst (delete_buckets_bucketName_file_fileName coll req w))
        = [(200, JsonBody (message_obj ''Arquivo removido.''))]
      \<and> snd (delete_buckets_bucketName_file_fileName coll req w) = w1
      \<and> responses (fst (delete_buckets_bucketName_file_fileName coll req w1))
        = [(200, JsonBody (message_obj ''Arquivo removido.''))])
   \<and> (\<forall>st b. (st, b) \<in> set (responses (fst (delete_buckets_bucketName_file_fileName coll req w)))
        \<longrightarrow> st = 200 \<or> st = 500)"
  by (auto simp add: delete_buckets_bucketName_file_fileName_def express_defs
        split: prod.splits outcome.splits)

text \<open>
  C6 on the in-memory object store: \<^verbatim>\<open>a.txt\<close> is deleted twice, present the first time
  and absent the second, with 200 both times.
\<close>

theorem C6_delete_object_always_200_witness:
  "memory (S3_deleteObject ''my-bucket'' ''a.txt'') ex_world = (Resolved (JObj []), world_without_a_txt)
   \<and> memory (S3_deleteObject ''my-bucket'' ''a.txt'') world_without_a_txt = (Resolved (JObj []), world_without_a_txt)
   \<and> responses (fst (delete_buckets_bucketName_file_fileName memory delete_a_txt ex_world))
        = [(200, JsonBody (JObj [(''message'', JStr ''Arquivo removido.'')]))]
   \<and> snd (delete_buckets_bucketName_file_fileName memory delete_a_txt ex_world) = world_without_a_txt
   \<and> responses (fst (delete_buckets_bucketName_file_fileName memory delete_a_txt world_without_a_txt))
        = [(200, JsonBody (JObj [(''message'', JStr ''Arquivo removido.'')]))]"
proof -
  have p: "bucketName (params delete_a_txt) = ''my-bucket''" "fileName (params delete_a_txt) = ''a.txt''"
    by (simp_all add: delete_a_txt_def ex_request_def)
  have s1: "memory (S3_deleteObject (bucketName (params delete_a_txt)) (fileName (params delete_a_txt))) ex_world
      = (Resolved (JObj []), world_without_a_txt)"
    unfolding p by (simp add: mem_defs ex_world_def world_without_a_txt_def)
  have s2: "memory (S3_deleteObject (bucketName (params delete_a_txt)) (fileName (params delete_a_txt))) world_without_a_txt
      = (Resolved (JObj []), world_without_a_txt)"
    unfolding p by (simp add: mem_defs ex_world_def world_without_a_txt_def)
  from C6_delete_object_always_200 [where coll = memory and req = delete_a_txt and w = ex_world
      and ?w1.0 = world_without_a_txt and ?w2.0 = world_without_a_txt
      and ack = "JObj []" and ?ack2.0 = "JObj []"] s1 s2
  show ?thesis
    unfolding p by (simp add: message_obj_def)
qed

section \<open>Users: update and create on the in-memory store\<close>

text \<open>
  What applying the schema keeps, and what an update leaves in a document: the facts
  about \<open>apply_schema\<close> and \<open>set_fields\<close> the two theorems below rest on.
\<close>

lemma apply_schema_keys:
  "apply_schema sch kvs = Inr fs \<Longrightarrow> fst ` set fs \<subseteq> fst ` set sch"
proof (induction sch arbitrary: fs)
  case Nil
  then show ?case by simp
next
  case (Cons kt sch)
  obtain k t where kt: "kt = (k, t)" by (cases kt)
  from Cons.prems obtain rest where r: "apply_schema sch kvs = Inr rest"
    and f: "set fs \<subseteq> insert (k, snd (hd fs)) (set rest)"
    unfolding kt
    by (auto split: option.splits sum.splits if_splits)
  from Cons.IH [OF r] f show ?case
    unfolding kt by force
qed

lemma apply_schema_map_of:
  "apply_schema sch kvs = Inr fs \<Longrightarrow> distinct (map fst sch) \<Longrightarrow>
   map_of fs k =
     (case map_of sch k of
        None \<Rightarrow> None
      | Some t \<Rightarrow>
          (case map_of kvs k of
             None \<Rightarrow> None
           | Some v \<Rightarrow>
               (case cast_to t v of
                  Inl e \<Rightarrow> None
                | Inr v' \<Rightarrow> if v' = JUndefined then None else Some v')))"
proof (induction sch arbitrary: fs)
  case Nil
  then show ?case by simp
next
  case (Cons kt sch)
  obtain k' t where kt: "kt = (k', t)" by (cases kt)
  from Cons.prems have d: "distinct (map fst sch)" and n: "k' \<notin> fst ` set sch"
    by (auto simp: kt)
  from n have m: "map_of sch k' = None"
    by (simp add: map_of_eq_None_iff)
  show ?case
  proof (cases "map_of kvs k'")
    case None
    with Cons.prems have "apply_schema sch kvs = Inr fs" by (simp add: kt)
    from Cons.IH [OF this d] None m show ?thesis
      by (auto simp: kt split: option.splits)
  next
    case (Some v)
    with Cons.prems obtain v' rest where c: "cast_to t v = Inr v'"
      and r: "apply_schema sch kvs = Inr rest"
      and f: "fs = (if v' = JUndefined then rest else (k', v') # rest)"
      by (auto simp: kt split: sum.splits)
    from apply_schema_keys [OF r] n have "k' \<notin> fst ` set rest" by auto
    then have mr: "map_of rest k' = None" by (simp add: map_of_eq_None_iff)
    from Cons.IH [OF r d] Some c f m mr show ?thesis
      by (auto simp: kt split: option.splits)
  qed
qed

text \<open>A body whose supplied values are all text passes every schema.\<close>

lemma apply_schema_text:
  "(\<forall>k v. map_of kvs k = Some v \<longrightarrow> (\<exists>s. v = JStr s)) \<Longrightarrow> \<exists>fs. apply_schema sch kvs = Inr fs"
proof (induction sch)
  case Nil
  then show ?case by simp
next
  case (Cons kt sch)
  obtain k t where kt: "kt = (k, t)" by (cases kt)
  from Cons obtain rest where r: "apply_schema sch kvs = Inr rest" by blast
  show ?case
  proof (cases "map_of kvs k")
    case None
    with r show ?thesis by (simp add: kt)
  next
    case (Some v)
    with Cons.prems obtain s where "v = JStr s" by blast
    with Some r show ?thesis by (cases t) (simp add: kt)
  qed
qed

lemma set_fields_map_of:
  "map_of (set_fields sch upd old) k =
     (case map_of sch k of
        None \<Rightarrow> None
      | Some t \<Rightarrow> (case map_of upd k of Some v \<Rightarrow> Some v | None \<Rightarrow> map_of old k))"
proof (induction sch)
  case Nil
  then show ?case by simp
next
  case (Cons kt sch)
  obtain k' t where kt: "kt = (k', t)" by (cases kt)
  from Cons.IH show ?case
    by (auto simp: kt split: option.splits)
qed

lemma find_map_oid:
  assumes "\<And>x. oid (f x) = oid x"
  shows "find (\<lambda>d. oid d = j) (map f xs) = map_option f (find (\<lambda>d. oid d = j) xs)"
  by (induction xs) (simp_all add: assms)

lemma UserSchema_distinct: "distinct (map fst UserSchema)"
  by (simp add: UserSchema_def)

lemma UserSchema_map_of:
  "k \<in> fst ` set UserSchema \<Longrightarrow> map_of UserSchema k = Some String_type"
  by (auto simp: UserSchema_def)

lemma UserSchema_cast:
  assumes "apply_schema UserSchema kvs = Inr upd" and "k \<in> fst ` set UserSchema"
  shows "map_of upd k =
     (case map_of kvs k of
        None \<Rightarrow> None
      | Some v \<Rightarrow> (case castString v of
                    Inl e \<Rightarrow> None
                  | Inr v' \<Rightarrow> if v' = JUndefined then None else Some v'))"
  using apply_schema_map_of [OF assms(1) UserSchema_distinct, of k] UserSchema_map_of [OF assms(2)]
  by (simp split: option.splits)

lemma field_set_fields:
  assumes "apply_schema UserSchema kvs = Inr upd" and "k \<in> fst ` set UserSchema"
  shows "field (d\<lparr>doc_fields := set_fields UserSchema upd (doc_fields d)\<rparr>) k =
     (case map_of kvs k of
        None \<Rightarrow> field d k
      | Some v \<Rightarrow> (case castString v of
                    Inl e \<Rightarrow> field d k
                  | Inr v' \<Rightarrow> if v' = JUndefined then field d k else v'))"
  by (simp add: field_def set_fields_map_of UserSchema_map_of [OF assms(2)]
        UserSchema_cast [OF assms] split: option.splits sum.splits)


text \<open>
  C7, on the in-memory document store. Let the store be reachable, the identifier of the
  path well formed, the body an object, and the schema accept the supplied values. If a
  user \<open>d\<close> has the identifier, the update handler passes identifier and body with
  \<^verbatim>\<open>{ new: true }\<close> to \<^verbatim>\<open>findByIdAndUpdate\<close> and responds 200 with a record \<open>d'\<close>
  that is the record stored under the identifier after the call (the post-update
  record); \<open>d'\<close> keeps the identifier, holds under every supplied schema path the
  supplied value (cast to the schema's type), and under every schema path that is not
  supplied the value \<open>d\<close> had; every other record of the collection is as before. If
  no user has the identifier, the handler responds 404 and the world is exactly as it
  was.
\<close>

theorem C7_update_user_partial:
  assumes "db_fault w = None"
    and "valid_object_id (id_param (params req))"
    and "body req = JObj kvs"
    and "apply_schema UserSchema kvs = Inr upd"
  shows
   "(find_doc (id_param (params req)) (users w) = Some d \<longrightarrow>
       (\<exists>d'. put_usuarios_id memory req w =
               ([Call (User_findByIdAndUpdate (id_param (params req)) (body req) True),
                 Respond 200 (JsonBody (doc_json d'))],
                w\<lparr>users := map (\<lambda>x. if oid x = oid d
                                      then x\<lparr>doc_fields := set_fields UserSchema upd (doc_fields x)\<rparr>
                                      else x) (users w)\<rparr>)
          \<and> find_doc (id_param (params req)) (users (snd (put_usuarios_id memory req w))) = Some d'
          \<and> oid d' = oid d
          \<and> (\<forall>k v v'. k \<in> fst ` set UserSchema \<longrightarrow> map_of kvs k = Some v \<longrightarrow>
                castString v = Inr v' \<longrightarrow> v' \<noteq> JUndefined \<longrightarrow> field d' k = v')
          \<and> (\<forall>k. k \<in> fst ` set UserSchema \<longrightarrow> map_of kvs k = None \<longrightarrow> field d' k = field d k)
          \<and> length (users (snd (put_usuarios_id memory req w))) = length (users w)
          \<and> (\<forall>n < length (users w). oid (users w ! n) \<noteq> oid d \<longrightarrow>
                users (snd (put_usuarios_id memory req w)) ! n = users w ! n)))
    \<and> (find_doc (id_param (params req)) (users w) = None \<longrightarrow>
         put_usuarios_id memory req w =
           ([Call (User_findByIdAndUpdate (id_param (params req)) (body req) True),
             Respond 404 (JsonBody (error_obj (''Usu'' @ a_acute @ ''rio n'' @ a_tilde @ ''o encontrado.'')))],
            w))"
proof (intro conjI impI)
  assume f: "find_doc (id_param (params req)) (users w) = Some d"
  let ?upd = "\<lambda>x. x\<lparr>doc_fields := set_fields UserSchema upd (doc_fields x)\<rparr>"
  let ?f = "\<lambda>x. if oid x = oid d then ?upd x else x"
  let ?w' = "w\<lparr>users := map ?f (users w)\<rparr>"
  have run: "put_usuarios_id memory req w =
      ([Call (User_findByIdAndUpdate (id_param (params req)) (body req) True),
        Respond 200 (JsonBody (doc_json (?upd d)))], ?w')"
    using assms f
    by (simp add: put_usuarios_id_def mem_findByIdAndUpdate_def db_call_def express_defs doc_json_def)
  have oidf: "\<And>x. oid (?f x) = oid x" by simp
  have stored: "find_doc (id_param (params req)) (users ?w') = Some (?upd d)"
    using f by (simp add: find_doc_def find_map_oid [of ?f, OF oidf])
  have sup: "\<forall>k v v'. k \<in> fst ` set UserSchema \<longrightarrow> map_of kvs k = Some v \<longrightarrow>
                castString v = Inr v' \<longrightarrow> v' \<noteq> JUndefined \<longrightarrow> field (?upd d) k = v'"
    by (simp add: field_set_fields [OF assms(4)])
  have uns: "\<forall>k. k \<in> fst ` set UserSchema \<longrightarrow> map_of kvs k = None \<longrightarrow> field (?upd d) k = field d k"
    by (simp add: field_set_fields [OF assms(4)])
  have others: "\<forall>n < length (users w). oid (users w ! n) \<noteq> oid d \<longrightarrow> users ?w' ! n = users w ! n"
    by simp
  show "\<exists>d'. put_usuarios_id memory req w =
               ([Call (User_findByIdAndUpdate (id_param (params req)) (body req) True),
                 Respond 200 (JsonBody (doc_json d'))], ?w')
          \<and> find_doc (id_param (params req)) (users (snd (put_usuarios_id memory req w))) = Some d'
          \<and> oid d' = oid d
          \<and> (\<forall>k v v'. k \<in> fst ` set UserSchema \<longrightarrow> map_of kvs k = Some v \<longrightarrow>
                castString v = Inr v' \<longrightarrow> v' \<noteq> JUndefined \<longrightarrow> field d' k = v')
          \<and> (\<forall>k. k \<in> fst ` set UserSchema \<longrightarrow> map_of kvs k = None \<longrightarrow> field d' k = field d k)
          \<and> length (users (snd (put_usuarios_id memory req w))) = length (users w)
          \<and> (\<forall>n < length (users w). oid (users w ! n) \<noteq> oid d \<longrightarrow>
                users (snd (put_usuarios_id memory req w)) ! n = users w ! n)"
  proof (intro exI [of _ "?upd d"] conjI)
    show "put_usuarios_id memory req w =
               ([Call (User_findByIdAndUpdate (id_param (params req)) (body req) True),
                 Respond 200 (JsonBody (doc_json (?upd d)))], ?w')"
      by (rule run)
    show "find_doc (id_param (params req)) (users (snd (put_usuarios_id memory req w))) = Some (?upd d)"
      using stored by (simp add: run)
    show "oid (?upd d) = oid d" by simp
    show "\<forall>k v v'. k \<in> fst ` set UserSchema \<longrightarrow> map_of kvs k = Some v \<longrightarrow>
                castString v = Inr v' \<longrightarrow> v' \<noteq> JUndefined \<longrightarrow> field (?upd d) k = v'"
      by (rule sup)
    show "\<forall>k. k \<in> fst ` set UserSchema \<longrightarrow> map_of kvs k = None \<longrightarrow> field (?upd d) k = field d k"
      by (rule uns)
    show "length (users (snd (put_usuarios_id memory req w))) = length (users w)"
      by (simp add: run)
    show "\<forall>n < length (users w). oid (users w ! n) \<noteq> oid d \<longrightarrow>
                users (snd (put_usuarios_id memory req w)) ! n = users w ! n"
      using others by (simp add: run)
  qed
next
  assume "find_doc (id_param (params req)) (users w) = None"
  with assms show "put_usuarios_id memory req w =
           ([Call (User_findByIdAndUpdate (id_param (params req)) (body req) True),
             Respond 404 (JsonBody (error_obj (''Usu'' @ a_acute @ ''rio n'' @ a_tilde @ ''o encontrado.'')))],
            w)"
    by (simp add: put_usuarios_id_def mem_findByIdAndUpdate_def db_call_def express_defs)
qed

text \<open>
  C7 at concrete inputs: a PUT that supplies \<^verbatim>\<open>nome\<close> (and a key outside the schema)
  for the stored user changes \<^verbatim>\<open>nome\<close>, keeps \<^verbatim>\<open>email\<close> and answers with the new
  record; the same PUT for an identifier of no record answers 404 and changes nothing.
\<close>

theorem C7_update_user_partial_witness:
  "apply_schema UserSchema [(''nome'', JStr ''Ana Maria''), (''idade'', JNum 30)] = Inr [(''nome'', JStr ''Ana Maria'')]
   \<and> put_usuarios_id memory
        (put_request ''000000000000000000000000'' (JObj [(''nome'', JStr ''Ana Maria''), (''idade'', JNum 30)]))
        ex_world =
      ([Call (User_findByIdAndUpdate ''000000000000000000000000''
                (JObj [(''nome'', JStr ''Ana Maria''), (''idade'', JNum 30)]) True),
        Respond 200 (JsonBody (JObj [(''_id'', JStr ''000000000000000000000000''),
                                     (''nome'', JStr ''Ana Maria''), (''email'', JStr ''ana@x.com'')]))],
       ex_world\<lparr>users := [\<lparr>oid = ''000000000000000000000000'',
                             doc_fields = [(''nome'', JStr ''Ana Maria''), (''email'', JStr ''ana@x.com'')]\<rparr>]\<rparr>)
   \<and> put_usuarios_id memory
        (put_request ''0000000000000000000000A7'' (JObj [(''nome'', JStr ''Ana Maria''), (''idade'', JNum 30)]))
        ex_world =
      ([Call (User_findByIdAndUpdate ''0000000000000000000000A7''
                (JObj [(''nome'', JStr ''Ana Maria''), (''idade'', JNum 30)]) True),
        Respond 404 (JsonBody (JObj [(''error'', JStr (''Usu'' @ a_acute @ ''rio n'' @ a_tilde @ ''o encontrado.''))]))],
       ex_world)"
proof -
  let ?kvs = "[(''nome'', JStr ''Ana Maria''), (''idade'', JNum 30)]"
  let ?ana = "\<lparr>oid = ''000000000000000000000000'',
              doc_fields = [(''nome'', JStr ''Ana''), (''email'', JStr ''ana@x.com'')]\<rparr>"
  let ?r0 = "put_request ''000000000000000000000000'' (JObj ?kvs)"
  let ?r7 = "put_request ''0000000000000000000000A7'' (JObj ?kvs)"
  have up: "db_fault ex_world = None"
    by (simp add: ex_world_def)
  have i0: "id_param (params ?r0) = ''000000000000000000000000''" and b0: "body ?r0 = JObj ?kvs"
    by (simp_all add: put_request_def ex_request_def)
  have i7: "id_param (params ?r7) = ''0000000000000000000000A7''" and b7: "body ?r7 = JObj ?kvs"
    by (simp_all add: put_request_def ex_request_def)
  have v0: "valid_object_id (id_param (params ?r0))"
    unfolding i0 by (rule valid_oid0)
  have v7: "valid_object_id (id_param (params ?r7))"
    unfolding i7 by (rule valid_oid7)
  have sch: "apply_schema UserSchema ?kvs = Inr [(''nome'', JStr ''Ana Maria'')]"
    by (simp add: UserSchema_def)
  have f0: "find_doc (id_param (params ?r0)) (users ex_world) = Some ?ana"
    unfolding i0 by (simp add: find_doc_def ex_world_def lower_hex_def)
  have f7: "find_doc (id_param (params ?r7)) (users ex_world) = None"
    unfolding i7 by (simp add: find_doc_def ex_world_def lower_hex_def)
  from C7_update_user_partial [OF up v0 b0 sch, where d = ?ana] f0
  obtain d' where run: "put_usuarios_id memory ?r0 ex_world =
               ([Call (User_findByIdAndUpdate (id_param (params ?r0)) (body ?r0) True),
                 Respond 200 (JsonBody (doc_json d'))],
                ex_world\<lparr>users := map (\<lambda>x. if oid x = oid ?ana
                                      then x\<lparr>doc_fields := set_fields UserSchema [(''nome'', JStr ''Ana Maria'')] (doc_fields x)\<rparr>
                                      else x) (users ex_world)\<rparr>)"
    and st: "find_doc (id_param (params ?r0)) (users (snd (put_usuarios_id memory ?r0 ex_world))) = Some d'"
    by blast
  have w': "ex_world\<lparr>users := map (\<lambda>x. if oid x = oid ?ana
                                      then x\<lparr>doc_fields := set_fields UserSchema [(''nome'', JStr ''Ana Maria'')] (doc_fields x)\<rparr>
                                      else x) (users ex_world)\<rparr>
      = ex_world\<lparr>users := [\<lparr>oid = ''000000000000000000000000'',
                             doc_fields = [(''nome'', JStr ''Ana Maria''), (''email'', JStr ''ana@x.com'')]\<rparr>]\<rparr>"
    by (simp add: ex_world_def UserSchema_def)
  from st have d': "d' = \<lparr>oid = ''000000000000000000000000'',
                             doc_fields = [(''nome'', JStr ''Ana Maria''), (''email'', JStr ''ana@x.com'')]\<rparr>"
    unfolding run w' i0 by (simp add: find_doc_def lower_hex_def)
  from C7_update_user_partial [OF up v7 b7 sch] f7
  have nf: "put_usuarios_id memory ?r7 ex_world =
           ([Call (User_findByIdAndUpdate (id_param (params ?r7)) (body ?r7) True),
             Respond 404 (JsonBody (error_obj (''Usu'' @ a_acute @ ''rio n'' @ a_tilde @ ''o encontrado.'')))],
            ex_world)"
    by blast
  from sch run nf show ?thesis
    unfolding w' d' i0 i7 b0 b7 by (simp add: doc_json_def error_obj_def)
qed















end
